theory Spec2Isabelle
  imports Complex_Main "HOL-Library.Log_Nat"
begin

section \<open>JavaScript values used by the route handlers\<close>

text \<open>
  The handlers are JavaScript: request parameters are strings (or absent), prices and
  amounts are IEEE-754 doubles, and presence of an optional parameter is tested by
  truthiness. A Number is modelled by its exact rational value, or one of the four
  special values; \<open>Fin 0\<close> is the positive zero and \<open>NegZero\<close> the negative one.
\<close>

datatype jsnum = NaN | Fin rat | NegZero | PosInf | NegInf

datatype jsval = Undefined | Str string | Num jsnum

text \<open>ToBoolean: \<open>undefined\<close>, the empty string, both zeros and NaN are falsy.\<close>

fun num_truthy :: "jsnum \<Rightarrow> bool" where
  "num_truthy NaN = False"
| "num_truthy (Fin q) = (q \<noteq> 0)"
| "num_truthy NegZero = False"
| "num_truthy PosInf = True"
| "num_truthy NegInf = True"

fun truthy :: "jsval \<Rightarrow> bool" where
  "truthy Undefined = False"
| "truthy (Str s) = (s \<noteq> [])"
| "truthy (Num n) = num_truthy n"

text \<open>The relational operators on Numbers: any comparison with NaN is false, and the
  two zeros compare equal.\<close>

fun num_le :: "jsnum \<Rightarrow> jsnum \<Rightarrow> bool" where
  "num_le NaN _ = False"
| "num_le _ NaN = False"
| "num_le NegInf _ = True"
| "num_le _ PosInf = True"
| "num_le PosInf _ = False"
| "num_le _ NegInf = False"
| "num_le (Fin a) (Fin b) = (a \<le> b)"
| "num_le (Fin a) NegZero = (a \<le> 0)"
| "num_le NegZero (Fin b) = (0 \<le> b)"
| "num_le NegZero NegZero = True"

definition num_ge :: "jsnum \<Rightarrow> jsnum \<Rightarrow> bool" where
  "num_ge a b = num_le b a"

subsection \<open>Rounding to a double\<close>

text \<open>Round to the nearest integer, ties to even.\<close>

definition round_even :: "rat \<Rightarrow> int" where
  "round_even q =
     (let f = \<lfloor>q\<rfloor>; r = q - of_int f
      in if r < 1 / 2 then f else if 1 / 2 < r then f + 1 else if even f then f else f + 1)"

text \<open>The binary exponent of a positive rational: \<open>2 ^ ilog2 q \<le> q < 2 ^ (ilog2 q + 1)\<close>.\<close>

definition ilog2 :: "rat \<Rightarrow> int" where
  "ilog2 q =
     (case quotient_of q of (p, d) \<Rightarrow>
        let g = bitlen p - bitlen d in if 2 powi g \<le> q then g else g - 1)"

text \<open>
  The Number value of a rational: binary64, round to nearest, ties to even, with
  gradual underflow (least exponent \<open>-1074\<close>) and overflow to infinity. A negative
  rational that rounds to zero gives the negative zero; the rational 0 stands for the
  positive zero, and the operations below give the sign of a zero result themselves.
\<close>

definition fl :: "rat \<Rightarrow> jsnum" where
  "fl q =
     (if q = 0 then Fin 0
      else let a = \<bar>q\<bar>;
               e = max (ilog2 a - 52) (- 1074);
               v = of_int (round_even (a / 2 powi e)) * 2 powi e
           in if 2 ^ 1024 \<le> v then (if 0 < q then PosInf else NegInf)
              else if v = 0 \<and> q < 0 then NegZero
              else Fin (sgn q * v))"

text \<open>The sign bit, and the kinds of Numbers.\<close>

fun negative :: "jsnum \<Rightarrow> bool" where
  "negative NaN = False"
| "negative (Fin q) = (q < 0)"
| "negative NegZero = True"
| "negative PosInf = False"
| "negative NegInf = True"

fun is_zero :: "jsnum \<Rightarrow> bool" where
  "is_zero (Fin q) = (q = 0)"
| "is_zero NegZero = True"
| "is_zero _ = False"

fun is_inf :: "jsnum \<Rightarrow> bool" where
  "is_inf PosInf = True"
| "is_inf NegInf = True"
| "is_inf _ = False"

text \<open>The rational value of a finite Number.\<close>

fun finite_val :: "jsnum \<Rightarrow> rat" where
  "finite_val (Fin q) = q"
| "finite_val _ = 0"

definition zero_of :: "bool \<Rightarrow> jsnum" where
  "zero_of neg = (if neg then NegZero else Fin 0)"

definition inf_of :: "bool \<Rightarrow> jsnum" where
  "inf_of neg = (if neg then NegInf else PosInf)"

text \<open>
  Multiplication and division. The sign of the result is the exclusive or of the signs
  of the operands; infinity times zero, zero by zero and infinity by infinity are NaN;
  a non-zero Number divided by a zero is an infinity.
\<close>

definition num_mul :: "jsnum \<Rightarrow> jsnum \<Rightarrow> jsnum" where
  "num_mul a b =
     (if a = NaN \<or> b = NaN then NaN
      else let neg = (negative a \<noteq> negative b)
           in if is_inf a \<or> is_inf b then (if is_zero a \<or> is_zero b then NaN else inf_of neg)
              else if is_zero a \<or> is_zero b then zero_of neg
              else fl (finite_val a * finite_val b))"

definition num_div :: "jsnum \<Rightarrow> jsnum \<Rightarrow> jsnum" where
  "num_div a b =
     (if a = NaN \<or> b = NaN then NaN
      else let neg = (negative a \<noteq> negative b)
           in if is_inf a then (if is_inf b then NaN else inf_of neg)
              else if is_inf b then zero_of neg
              else if is_zero b then (if is_zero a then NaN else inf_of neg)
              else if is_zero a then zero_of neg
              else fl (finite_val a / finite_val b))"

subsection \<open>Strings and numbers\<close>

text \<open>
  Strings are held in UTF-8: a character outside ASCII is its sequence of bytes. The
  white space that \<open>parseFloat\<close>, \<open>parseInt\<close> and ToNumber skip is that of the
  language (\<open>StrWhiteSpaceChar\<close>): tab, line feed, vertical tab, form feed, carriage
  return, space, the no-break space \<open>U+00A0\<close>, the other space separators \<open>U+1680\<close>,
  \<open>U+2000\<close> to \<open>U+200A\<close>, \<open>U+202F\<close>, \<open>U+205F\<close> and \<open>U+3000\<close>, the line and
  paragraph separators \<open>U+2028\<close> and \<open>U+2029\<close>, and the byte order mark \<open>U+FEFF\<close>.
\<close>

definition white_space :: "string list" where
  "white_space =
     [[CHR 0x09], [CHR 0x0A], [CHR 0x0B], [CHR 0x0C], [CHR 0x0D], [CHR 0x20],
      [CHR 0xC2, CHR 0xA0],
      [CHR 0xE1, CHR 0x9A, CHR 0x80],
      [CHR 0xE2, CHR 0x80, CHR 0x80], [CHR 0xE2, CHR 0x80, CHR 0x81],
      [CHR 0xE2, CHR 0x80, CHR 0x82], [CHR 0xE2, CHR 0x80, CHR 0x83],
      [CHR 0xE2, CHR 0x80, CHR 0x84], [CHR 0xE2, CHR 0x80, CHR 0x85],
      [CHR 0xE2, CHR 0x80, CHR 0x86], [CHR 0xE2, CHR 0x80, CHR 0x87],
      [CHR 0xE2, CHR 0x80, CHR 0x88], [CHR 0xE2, CHR 0x80, CHR 0x89],
      [CHR 0xE2, CHR 0x80, CHR 0x8A],
      [CHR 0xE2, CHR 0x80, CHR 0xA8], [CHR 0xE2, CHR 0x80, CHR 0xA9],
      [CHR 0xE2, CHR 0x80, CHR 0xAF],
      [CHR 0xE2, CHR 0x81, CHR 0x9F],
      [CHR 0xE3, CHR 0x80, CHR 0x80],
      [CHR 0xEF, CHR 0xBB, CHR 0xBF]]"

text \<open>Remove from the front of a string every leading occurrence of one of the given
  sequences.\<close>

function strip :: "string list \<Rightarrow> string \<Rightarrow> string" where
  "strip ws s =
     (case find (\<lambda>w. w \<noteq> [] \<and> take (length w) s = w) ws of
        None \<Rightarrow> s
      | Some w \<Rightarrow> strip ws (drop (length w) s))"
  by pat_completeness auto
termination
proof (relation "measure (\<lambda>(ws, s). length s)")
  show "wf (measure (\<lambda>(ws, s). length s))" by simp
next
  fix ws :: "string list" and s w :: string
  assume "find (\<lambda>w. w \<noteq> [] \<and> take (length w) s = w) ws = Some w"
  then have "w \<noteq> [] \<and> take (length w) s = w" by (auto simp add: find_Some_iff)
  then have "s \<noteq> []" by auto
  moreover have "w \<noteq> []" using \<open>w \<noteq> [] \<and> take (length w) s = w\<close> by simp
  ultimately show "((ws, drop (length w) s), (ws, s)) \<in> measure (\<lambda>(ws, s). length s)"
    by simp
qed

declare strip.simps [simp del]

definition is_digit :: "char \<Rightarrow> bool" where
  "is_digit c = (48 \<le> (of_char c :: int) \<and> (of_char c :: int) \<le> 57)"

text \<open>The value of a string of decimal digits, most significant first.\<close>

definition digits_val :: "string \<Rightarrow> int" where
  "digits_val ds = foldl (\<lambda>a c. 10 * a + (of_char c - 48)) 0 ds"

text \<open>Leading white space removed, and white space removed on both sides. In UTF-8 no
  encoded character ends with the encoding of another, so the white space at the end of
  a string is found by matching the reversed sequences against the reversed string.\<close>

definition trim_left :: "string \<Rightarrow> string" where
  "trim_left s = strip white_space s"

definition trim :: "string \<Rightarrow> string" where
  "trim s = rev (strip (map rev white_space) (rev (strip white_space s)))"

text \<open>The Number of a decimal or integer literal with sign factor \<open>sg\<close> and magnitude
  \<open>v\<close>: a zero magnitude with a minus sign is the negative zero.\<close>

definition signed_number :: "rat \<Rightarrow> rat \<Rightarrow> jsnum" where
  "signed_number sg v = (if v = 0 \<and> sg < 0 then NegZero else fl (sg * v))"

text \<open>An optional sign: the factor and the rest of the string.\<close>

fun take_sign :: "string \<Rightarrow> rat \<times> string" where
  "take_sign [] = (1, [])"
| "take_sign (c # cs) =
     (if c = CHR ''-'' then (- 1, cs) else if c = CHR ''+'' then (1, cs) else (1, c # cs))"

text \<open>
  The exponent part of a decimal literal: \<open>e\<close> or \<open>E\<close>, an optional sign and at least
  one digit. Returns the exponent and the rest; without a well-formed exponent part
  nothing is consumed.
\<close>

definition scan_exponent :: "string \<Rightarrow> int \<times> string" where
  "scan_exponent s =
     (case s of
        [] \<Rightarrow> (0, s)
      | c # cs \<Rightarrow>
          if c = CHR ''e'' \<or> c = CHR ''E'' then
            (let (sg, r) = take_sign cs; ds = takeWhile is_digit r
             in if ds = [] then (0, s)
                else ((if sg < 0 then - digits_val ds else digits_val ds),
                      dropWhile is_digit r))
          else (0, s))"

text \<open>
  The longest prefix that is an unsigned decimal literal (\<open>12\<close>, \<open>12.\<close>, \<open>12.5\<close>,
  \<open>.5\<close>, each with an optional exponent part): its mathematical value and the rest of
  the string, or \<open>None\<close> when no prefix is one.
\<close>

definition scan_decimal :: "string \<Rightarrow> (rat \<times> string) option" where
  "scan_decimal s =
     (let ip = takeWhile is_digit s; r1 = dropWhile is_digit s;
          dot = (r1 \<noteq> [] \<and> hd r1 = CHR ''.'');
          fp = (if dot then takeWhile is_digit (tl r1) else []);
          r2 = (if dot then dropWhile is_digit (tl r1) else r1)
      in if ip = [] \<and> fp = [] then None
         else let (ex, r3) = scan_exponent r2
              in Some ((of_int (digits_val ip) + of_int (digits_val fp) / 10 ^ length fp)
                         * 10 powi ex, r3))"

text \<open>\<open>parseFloat\<close> of a string: leading white space, a sign, then \<open>Infinity\<close> or the
  longest decimal literal; anything else is NaN.\<close>

definition parseFloat_str :: "string \<Rightarrow> jsnum" where
  "parseFloat_str s =
     (let (sg, r) = take_sign (trim_left s)
      in if take 8 r = ''Infinity'' then (if sg < 0 then NegInf else PosInf)
         else case scan_decimal r of
                None \<Rightarrow> NaN
              | Some (v, _) \<Rightarrow> signed_number sg v)"

text \<open>Digits of a radix up to 16, for the \<open>0x\<close>, \<open>0o\<close> and \<open>0b\<close> literals.\<close>

definition radix_digit :: "int \<Rightarrow> char \<Rightarrow> int option" where
  "radix_digit b c =
     (let n = (of_char c :: int);
          d = (if 48 \<le> n \<and> n \<le> 57 then n - 48
               else if 97 \<le> n \<and> n \<le> 102 then n - 87
               else if 65 \<le> n \<and> n \<le> 70 then n - 55 else 16)
      in if d < b then Some d else None)"

definition radix_val :: "int \<Rightarrow> string \<Rightarrow> int" where
  "radix_val b ds = foldl (\<lambda>a c. b * a + (case radix_digit b c of Some d \<Rightarrow> d | None \<Rightarrow> 0)) 0 ds"

definition is_radix_digit :: "int \<Rightarrow> char \<Rightarrow> bool" where
  "is_radix_digit b c = (radix_digit b c \<noteq> None)"

text \<open>The radix announced by a \<open>0x\<close>, \<open>0o\<close> or \<open>0b\<close> prefix (either case).\<close>

definition radix_prefix :: "string \<Rightarrow> int option" where
  "radix_prefix s =
     (case s of
        c0 # c1 # _ \<Rightarrow>
          if c0 \<noteq> CHR ''0'' then None
          else if c1 = CHR ''x'' \<or> c1 = CHR ''X'' then Some 16
          else if c1 = CHR ''o'' \<or> c1 = CHR ''O'' then Some 8
          else if c1 = CHR ''b'' \<or> c1 = CHR ''B'' then Some 2
          else None
      | _ \<Rightarrow> None)"

text \<open>
  ToNumber of a string: white space is trimmed on both sides, the empty string is 0,
  and the whole rest must be one numeric literal.
\<close>

definition ToNumber_str :: "string \<Rightarrow> jsnum" where
  "ToNumber_str s =
     (let t = trim s
      in if t = [] then Fin 0
         else case radix_prefix t of
                Some b \<Rightarrow>
                  (let ds = drop 2 t
                   in if ds \<noteq> [] \<and> list_all (is_radix_digit b) ds
                      then fl (of_int (radix_val b ds)) else NaN)
              | None \<Rightarrow>
                  (let (sg, r) = take_sign t
                   in if r = ''Infinity'' then (if sg < 0 then NegInf else PosInf)
                      else case scan_decimal r of
                             None \<Rightarrow> NaN
                           | Some (v, rest) \<Rightarrow> if rest = [] then signed_number sg v else NaN))"

text \<open>
  \<open>parseInt\<close> of a string with no radix argument: leading white space, a sign, an
  optional \<open>0x\<close> prefix selecting radix 16, then the longest run of digits.
\<close>

definition parseInt_str :: "string \<Rightarrow> jsnum" where
  "parseInt_str s =
     (let (sg, r) = take_sign (trim_left s);
          hex = (radix_prefix r = Some 16);
          b = (if hex then 16 else 10);
          ds = takeWhile (is_radix_digit b) (if hex then drop 2 r else r)
      in if ds = [] then NaN else signed_number sg (of_int (radix_val b ds)))"

subsection \<open>Number to string\<close>

text \<open>Decimal digits of a non-negative integer.\<close>

function digits_of :: "int \<Rightarrow> string" where
  "digits_of n =
     (if n < 10 then [char_of (48 + n)]
      else digits_of (n div 10) @ [char_of (48 + n mod 10)])"
  by pat_completeness auto
termination
  by (relation "measure nat") auto

declare digits_of.simps [simp del]

text \<open>The number of decimal digits of a positive integer.\<close>

function declen :: "int \<Rightarrow> int" where
  "declen n = (if n \<le> 0 then 0 else declen (n div 10) + 1)"
  by pat_completeness auto
termination
  by (relation "measure nat") auto

declare declen.simps [simp del]

text \<open>The decimal exponent of a positive rational:
  \<open>10 ^ (decimal_exponent q - 1) \<le> q < 10 ^ decimal_exponent q\<close>.\<close>

definition decimal_exponent :: "rat \<Rightarrow> int" where
  "decimal_exponent q =
     (case quotient_of q of (p, d) \<Rightarrow>
        let g = declen p - declen d
        in if q < 10 powi g then g else g + 1)"

text \<open>
  Number::toString chooses integers \<open>n\<close>, \<open>k\<close>, \<open>s\<close> with \<open>k\<close> as small as possible
  such that \<open>s\<close> has \<open>k\<close> digits and \<open>s * 10 ^ (n - k)\<close> rounds to the Number; among
  several \<open>s\<close> the one closest to the Number, an even one on a tie. For a given \<open>k\<close>
  only the two \<open>k\<close>-digit decimals around \<open>q\<close> can qualify.
\<close>

definition digits_cand :: "rat \<Rightarrow> int \<Rightarrow> nat \<Rightarrow> (int \<times> int) option" where
  "digits_cand q n k =
     (let u = 10 powi (n - int k);
          lo = \<lfloor>q / u\<rfloor>; hi = lo + 1;
          oklo = (fl (of_int lo * u) = Fin q);
          okhi = (fl (of_int hi * u) = Fin q);
          dlo = q - of_int lo * u; dhi = of_int hi * u - q
      in if oklo \<and> (\<not> okhi \<or> dlo < dhi \<or> (dlo = dhi \<and> even lo)) then Some (lo, n)
         else if okhi then (if hi = 10 ^ k then Some (10 ^ (k - 1), n + 1) else Some (hi, n))
         else None)"

fun first_digits :: "rat \<Rightarrow> int \<Rightarrow> nat list \<Rightarrow> int \<times> nat \<times> int" where
  "first_digits q n [] = (\<lfloor>q / 10 powi (n - 21)\<rfloor>, 21, n)"
| "first_digits q n (k # ks) =
     (case digits_cand q n k of
        Some (s, n') \<Rightarrow> (s, k, n')
      | None \<Rightarrow> first_digits q n ks)"

text \<open>Seventeen digits identify every double, so the search ends well within the
  list; the last equation of \<open>first_digits\<close> only makes the function total.\<close>

definition shortest_digits :: "rat \<Rightarrow> int \<times> nat \<times> int" where
  "shortest_digits q = first_digits q (decimal_exponent q) [1..<22]"

definition pos_to_string :: "rat \<Rightarrow> string" where
  "pos_to_string q =
     (let (s, k, n) = shortest_digits q; ds = digits_of s
      in if int k \<le> n \<and> n \<le> 21 then ds @ replicate (nat (n - int k)) (CHR ''0'')
         else if 0 < n \<and> n \<le> 21 then take (nat n) ds @ ''.'' @ drop (nat n) ds
         else if - 6 < n \<and> n \<le> 0 then ''0.'' @ replicate (nat (- n)) (CHR ''0'') @ ds
         else let e = n - 1;
                  es = (if e < 0 then ''-'' else ''+'') @ digits_of \<bar>e\<bar>
              in if k = 1 then ds @ ''e'' @ es
                 else take 1 ds @ ''.'' @ drop 1 ds @ ''e'' @ es)"

fun num_to_string :: "jsnum \<Rightarrow> string" where
  "num_to_string NaN = ''NaN''"
| "num_to_string PosInf = ''Infinity''"
| "num_to_string NegInf = ''-Infinity''"
| "num_to_string NegZero = ''0''"
| "num_to_string (Fin q) =
     (if q = 0 then ''0'' else if q < 0 then ''-'' @ pos_to_string (- q) else pos_to_string q)"

subsection \<open>Conversions of values\<close>

fun ToString :: "jsval \<Rightarrow> string" where
  "ToString Undefined = ''undefined''"
| "ToString (Str s) = s"
| "ToString (Num n) = num_to_string n"

fun ToNumber :: "jsval \<Rightarrow> jsnum" where
  "ToNumber Undefined = NaN"
| "ToNumber (Str s) = ToNumber_str s"
| "ToNumber (Num n) = n"

text \<open>\<open>parseFloat\<close> and \<open>parseInt\<close> convert their argument to a string first.\<close>

definition parseFloat :: "jsval \<Rightarrow> jsnum" where
  "parseFloat v = parseFloat_str (ToString v)"

definition parseInt :: "jsval \<Rightarrow> jsnum" where
  "parseInt v = parseInt_str (ToString v)"

text \<open>
  The relational operators with a Number (or \<open>undefined\<close>) on one side convert both
  sides to Numbers; the handlers never compare two strings.
\<close>

definition js_ge :: "jsval \<Rightarrow> jsval \<Rightarrow> bool" where
  "js_ge a b = num_ge (ToNumber a) (ToNumber b)"

definition js_le :: "jsval \<Rightarrow> jsval \<Rightarrow> bool" where
  "js_le a b = num_le (ToNumber a) (ToNumber b)"

section \<open>Requests, responses and collaborators\<close>

text \<open>
  The keys that the handlers read from \<open>req.body\<close> (Uniswap router) and \<open>req.query\<close>
  (Balancer router); an absent key is \<open>Undefined\<close>.
\<close>

record params =
  base :: jsval
  quote :: jsval
  amount :: jsval
  maxPrice :: jsval
  gasPrice :: jsval
  privateKey :: jsval
  tokenIn :: jsval
  tokenOut :: jsval

text \<open>
  Of the connection, \<open>req.client.authorized\<close> and whether the peer certificate has a
  subject.
\<close>

record request =
  client_authorized :: bool
  cert_subject :: bool
  body :: params
  query :: params

text \<open>A thrown value: its \<open>reason\<close> property and a description.\<close>

record js_error =
  reason :: jsval
  description :: string

datatype wallet = Wallet jsval

text \<open>
  The price object of the Uniswap SDK: a fraction, in units of the quote currency per
  unit of the base currency. \<open>invert\<close> exchanges the currencies and the fraction.
\<close>

record price =
  baseCurrency :: jsval
  quoteCurrency :: jsval
  numerator :: int
  denominator :: int

definition invert :: "price \<Rightarrow> price" where
  "invert p =
     \<lparr>baseCurrency = quoteCurrency p, quoteCurrency = baseCurrency p,
      numerator = denominator p, denominator = numerator p\<rparr>"

record route =
  midPrice :: price
  path :: "jsval list"

record txobj =
  gasUsed :: jsval
  transactionHash :: jsval
  txStatus :: jsval

datatype json = JVal jsval | JBool bool | JErr js_error | JList "jsval list"

text \<open>A response: the status code and the object passed to \<open>res.json\<close> or \<open>res.send\<close>.\<close>

record response =
  status :: nat
  json :: "(string \<times> json) list"

text \<open>The calls a handler makes on the pool services, in order.\<close>

datatype call =
    FetchRoute jsval jsval
  | SwapExactIn wallet route jsval jsnum jsval
  | GetSwaps jsval jsval jsnum
  | BatchSwapExactIn wallet "jsval list" jsval jsval string

text \<open>
  What a request leaves behind: the response sent, if any (a handler whose promise
  rejects, or that returns without answering, sends none), and the service calls made.
\<close>

record outcome =
  sent :: "response option"
  calls :: "call list"

text \<open>The message table of \<open>services/utils\<close>; its strings are parameters.\<close>

record status_messages =
  ssl_cert_required :: string
  ssl_cert_invalid :: string
  operation_error :: string
  no_pool_available :: string

text \<open>
  The two pool services and the surroundings of a request: the services' constants, the
  results of their calls (a call either throws or returns), the SDK's price formatting,
  the key check of the wallet constructor, the key held in the process environment, and
  the two readings of \<open>Date.now()\<close> (at handler entry and when the response object is
  built). \<open>getSwaps\<close> returns the swaps and \<open>expectedOut\<close>, a BigNumber, which the
  handlers use only through its conversion to a string.
\<close>

record env =
  network :: jsval
  provider_url :: jsval
  exchangeProxy :: jsval
  subgraphUrl :: jsval
  statusMessages :: status_messages
  valid_key :: "jsval \<Rightarrow> bool"
  key_error :: js_error
  fetch_route :: "jsval \<Rightarrow> jsval \<Rightarrow> js_error + route option"
  toSignificant :: "price \<Rightarrow> nat \<Rightarrow> string"
  swapExactIn :: "wallet \<Rightarrow> route \<Rightarrow> jsval \<Rightarrow> jsnum \<Rightarrow> jsval \<Rightarrow> js_error + txobj"
  balancer_network :: jsval
  erc20Tokens :: "jsval \<Rightarrow> jsval"
  ETH_PRIVATE_KEY :: jsval
  getSwaps :: "jsval \<Rightarrow> jsval \<Rightarrow> jsnum \<Rightarrow> js_error + jsval list \<times> jsval"
  batchSwapExactIn ::
    "wallet \<Rightarrow> jsval list \<Rightarrow> jsval \<Rightarrow> jsval \<Rightarrow> string \<Rightarrow> js_error + jsval"
  now_entry :: int
  now_format :: int

text \<open>\<open>new ethers.Wallet(privateKey, provider)\<close> throws on a key it does not accept.\<close>

definition new_Wallet :: "env \<Rightarrow> jsval \<Rightarrow> js_error + wallet" where
  "new_Wallet E k = (if valid_key E k then Inr (Wallet k) else Inl (key_error E))"

text \<open>Modelled from the spec: parameter extraction is external to the pipeline;
  \<open>getParamData\<close> (in \<open>services/utils\<close>) hands the request's fields to the handler.\<close>

definition getParamData :: "params \<Rightarrow> params" where
  "getParamData b = b"

text \<open>Modelled from the spec: \<open>latency\<close> (in \<open>services/utils\<close>) is the elapsed wall
  time between the two clock readings.\<close>

definition latency :: "int \<Rightarrow> int \<Rightarrow> jsnum" where
  "latency startTime endTime = Fin (of_int (endTime - startTime))"

definition denomMultiplier :: jsnum where
  "denomMultiplier = Fin (10 ^ 18)"

definition swapMoreThanMaxPriceError :: string where
  "swapMoreThanMaxPriceError = ''Swap price exceeds maxPrice''"

definition swapLessThanMaxPriceError :: string where
  "swapLessThanMaxPriceError = ''Swap price lower than maxPrice''"

text \<open>Reading a property of \<open>null\<close> throws a TypeError, which has no \<open>reason\<close>.\<close>

definition TypeError :: js_error where
  "TypeError = \<lparr>reason = Undefined, description = ''TypeError''\<rparr>"

section \<open>The Uniswap router\<close>

text \<open>
  Each handler is a function of the surroundings and the request to the outcome. The
  \<open>debug\<close> calls and the unused \<open>minAmountOut\<close> of \<open>/sell\<close> have no effect on the
  outcome and are left out.
\<close>

text \<open>The \<open>catch\<close> block shared by the four handlers.\<close>

definition catch_block :: "env \<Rightarrow> js_error \<Rightarrow> response" where
  "catch_block E err =
     (let reason = (if truthy (reason err) then reason err
                    else Str (operation_error (statusMessages E)))
      in \<lparr>status = 500, json = [(''error'', JVal reason), (''message'', JErr err)]\<rparr>)"

text \<open>The answer of the quote handlers when \<open>fetch_route\<close> returns no route.\<close>

definition no_pool_response :: "env \<Rightarrow> response" where
  "no_pool_response E =
     \<lparr>status = 200,
      json = [(''error'', JVal (Str (no_pool_available (statusMessages E)))),
              (''message'', JVal (Str []))]\<rparr>"

text \<open>\<open>POST /\<close>\<close>

definition root :: "env \<Rightarrow> request \<Rightarrow> outcome" where
  "root E req =
     \<lparr>sent = Some \<lparr>status = 200,
                     json = [(''network'', JVal (network E)),
                             (''provider'', JVal (provider_url E)),
                             (''exchangeProxy'', JVal (exchangeProxy E)),
                             (''subgraphUrl'', JVal (subgraphUrl E)),
                             (''connection'', JBool True),
                             (''timestamp'', JVal (Num (Fin (of_int (now_entry E)))))]\<rparr>,
      calls = []\<rparr>"

text \<open>The fields of a quote, shared by \<open>/sell-price\<close> and \<open>/buy-price\<close> up to the
  name of the expected amount and the price used.\<close>

definition quote_json ::
  "env \<Rightarrow> int \<Rightarrow> params \<Rightarrow> string \<Rightarrow> string \<Rightarrow> route \<Rightarrow> (string \<times> json) list" where
  "quote_json E initTime paramData expected price route =
     [(''network'', JVal (network E)),
      (''timestamp'', JVal (Num (Fin (of_int initTime)))),
      (''latency'', JVal (Num (latency initTime (now_format E)))),
      (''base'', JVal (base paramData)),
      (''quote'', JVal (quote paramData)),
      (''amount'', JVal (Num (parseFloat (amount paramData)))),
      (expected,
         JVal (Num (parseFloat (Num (num_mul (ToNumber (amount paramData))
                                              (ToNumber (Str price))))))),
      (''price'', JVal (Str price)),
      (''swaps'', JList (path route))]"

text \<open>\<open>POST /sell-price\<close>\<close>

definition sell_price :: "env \<Rightarrow> request \<Rightarrow> outcome" where
  "sell_price E req =
     (let initTime = now_entry E;
          paramData = getParamData (body req);
          baseTokenAddress = base paramData;
          quoteTokenAddress = quote paramData;
          cs = [FetchRoute baseTokenAddress quoteTokenAddress]
      in case fetch_route E baseTokenAddress quoteTokenAddress of
           Inl err \<Rightarrow> \<lparr>sent = Some (catch_block E err), calls = cs\<rparr>
         | Inr None \<Rightarrow> \<lparr>sent = Some (no_pool_response E), calls = cs\<rparr>
         | Inr (Some route) \<Rightarrow>
             \<lparr>sent = Some
                \<lparr>status = 200,
                 json = quote_json E initTime paramData ''expectedOut''
                          (toSignificant E (midPrice route) 8) route\<rparr>,
              calls = cs\<rparr>)"

text \<open>\<open>POST /buy-price\<close>\<close>

definition buy_price :: "env \<Rightarrow> request \<Rightarrow> outcome" where
  "buy_price E req =
     (let initTime = now_entry E;
          paramData = getParamData (body req);
          baseTokenAddress = base paramData;
          quoteTokenAddress = quote paramData;
          cs = [FetchRoute quoteTokenAddress baseTokenAddress]
      in case fetch_route E quoteTokenAddress baseTokenAddress of
           Inl err \<Rightarrow> \<lparr>sent = Some (catch_block E err), calls = cs\<rparr>
         | Inr None \<Rightarrow> \<lparr>sent = Some (no_pool_response E), calls = cs\<rparr>
         | Inr (Some route) \<Rightarrow>
             \<lparr>sent = Some
                \<lparr>status = 200,
                 json = quote_json E initTime paramData ''expectedIn''
                          (toSignificant E (invert (midPrice route)) 8) route\<rparr>,
              calls = cs\<rparr>)"

text \<open>
  The amount in base units, as both trade handlers and the Balancer handlers compute
  it: \<open>new BigNumber(parseInt(amount * denomMultiplier))\<close>. The product is a double;
  \<open>parseInt\<close> converts it to a string and reads the leading digits. The BigNumber is
  represented by the Number it is built from.
\<close>

definition toBaseUnits :: "jsval \<Rightarrow> jsnum" where
  "toBaseUnits a = parseInt (Num (num_mul (ToNumber a) denomMultiplier))"

text \<open>The way back, as the Balancer handlers display \<open>expectedOut\<close>: a division by
  \<open>1e18\<close>.\<close>

definition fromBaseUnits :: "jsnum \<Rightarrow> jsnum" where
  "fromBaseUnits n = num_div n (Fin (10 ^ 18))"

text \<open>An optional numeric parameter: parsed when the raw value is truthy, else left
  \<open>undefined\<close>.\<close>

definition optional_number :: "jsval \<Rightarrow> jsval" where
  "optional_number raw = (if truthy raw then Num (parseFloat raw) else Undefined)"

text \<open>The fields of a completed trade: those of a quote, with the price held in
  \<open>price\<close>, and the receipt.\<close>

definition trade_json ::
  "env \<Rightarrow> int \<Rightarrow> params \<Rightarrow> string \<Rightarrow> string \<Rightarrow> txobj \<Rightarrow> (string \<times> json) list" where
  "trade_json E initTime paramData expected price txObj =
     [(''network'', JVal (network E)),
      (''timestamp'', JVal (Num (Fin (of_int initTime)))),
      (''latency'', JVal (Num (latency initTime (now_format E)))),
      (''base'', JVal (base paramData)),
      (''quote'', JVal (quote paramData)),
      (''amount'', JVal (Num (parseFloat (amount paramData)))),
      (expected,
         JVal (Num (parseFloat (Num (num_mul (ToNumber (amount paramData))
                                              (ToNumber (Str price))))))),
      (''price'', JVal (Str price)),
      (''gasUsed'', JVal (Num (parseInt (gasUsed txObj)))),
      (''txHash'', JVal (transactionHash txObj)),
      (''status'', JVal (txStatus txObj))]"

text \<open>\<open>POST /sell\<close>. The wallet is built before the \<open>try\<close> block: when its
  constructor throws, the handler's promise rejects and nothing is sent. With no route,
  reading \<open>route.midPrice\<close> throws inside the \<open>try\<close> block.\<close>

definition sell :: "env \<Rightarrow> request \<Rightarrow> outcome" where
  "sell E req =
     (let initTime = now_entry E;
          paramData = getParamData (body req);
          privateKey = privateKey paramData
      in case new_Wallet E privateKey of
           Inl err \<Rightarrow> \<lparr>sent = None, calls = []\<rparr>
         | Inr wallet \<Rightarrow>
             (let baseTokenAddress = base paramData;
                  quoteTokenAddress = quote paramData;
                  amount = toBaseUnits (amount paramData);
                  maxPrice = optional_number (maxPrice paramData);
                  gasPrice = optional_number (gasPrice paramData);
                  c1 = FetchRoute baseTokenAddress quoteTokenAddress
              in case fetch_route E baseTokenAddress quoteTokenAddress of
                   Inl err \<Rightarrow> \<lparr>sent = Some (catch_block E err), calls = [c1]\<rparr>
                 | Inr None \<Rightarrow> \<lparr>sent = Some (catch_block E TypeError), calls = [c1]\<rparr>
                 | Inr (Some route) \<Rightarrow>
                     (let price = toSignificant E (midPrice route) 8
                      in if \<not> truthy maxPrice \<or> js_ge (Str price) maxPrice then
                           (let c2 = SwapExactIn wallet route baseTokenAddress amount gasPrice
                            in case swapExactIn E wallet route baseTokenAddress amount gasPrice of
                                 Inl err \<Rightarrow> \<lparr>sent = Some (catch_block E err), calls = [c1, c2]\<rparr>
                               | Inr txObj \<Rightarrow>
                                   \<lparr>sent = Some
                                      \<lparr>status = 200,
                                       json = trade_json E initTime paramData ''expectedOut''
                                                price txObj\<rparr>,
                                    calls = [c1, c2]\<rparr>)
                         else
                           \<lparr>sent = Some
                              \<lparr>status = 200,
                               json =
                                 [(''error'', JVal (Str swapLessThanMaxPriceError)),
                                  (''message'',
                                     JVal (Str (''Swap price '' @ price @ '' lower than maxPrice ''
                                                @ ToString maxPrice)))]\<rparr>,
                            calls = [c1]\<rparr>)))"

text \<open>\<open>POST /buy\<close>\<close>

definition buy :: "env \<Rightarrow> request \<Rightarrow> outcome" where
  "buy E req =
     (let initTime = now_entry E;
          paramData = getParamData (body req);
          privateKey = privateKey paramData
      in case new_Wallet E privateKey of
           Inl err \<Rightarrow> \<lparr>sent = None, calls = []\<rparr>
         | Inr wallet \<Rightarrow>
             (let baseTokenAddress = base paramData;
                  quoteTokenAddress = quote paramData;
                  amount = toBaseUnits (amount paramData);
                  maxPrice = optional_number (maxPrice paramData);
                  gasPrice = optional_number (gasPrice paramData);
                  c1 = FetchRoute quoteTokenAddress baseTokenAddress
              in case fetch_route E quoteTokenAddress baseTokenAddress of
                   Inl err \<Rightarrow> \<lparr>sent = Some (catch_block E err), calls = [c1]\<rparr>
                 | Inr None \<Rightarrow> \<lparr>sent = Some (catch_block E TypeError), calls = [c1]\<rparr>
                 | Inr (Some route) \<Rightarrow>
                     (let price = toSignificant E (invert (midPrice route)) 8
                      in if \<not> truthy maxPrice \<or> js_le (Str price) maxPrice then
                           (let c2 = SwapExactIn wallet route quoteTokenAddress amount gasPrice
                            in case swapExactIn E wallet route quoteTokenAddress amount gasPrice of
                                 Inl err \<Rightarrow> \<lparr>sent = Some (catch_block E err), calls = [c1, c2]\<rparr>
                               | Inr txObj \<Rightarrow>
                                   \<lparr>sent = Some
                                      \<lparr>status = 200,
                                       json = trade_json E initTime paramData ''expectedIn''
                                                price txObj\<rparr>,
                                    calls = [c1, c2]\<rparr>)
                         else
                           \<lparr>sent = Some
                              \<lparr>status = 200,
                               json =
                                 [(''error'', JVal (Str swapMoreThanMaxPriceError)),
                                  (''message'',
                                     JVal (Str (''Swap price '' @ price @ '' exceeds maxPrice ''
                                                @ ToString maxPrice)))]\<rparr>,
                            calls = [c1]\<rparr>)))"

text \<open>
  The router: the certificate middleware runs first and only an authorized request
  reaches a handler.
\<close>

datatype endpoint = Root | SellPrice | BuyPrice | Sell | Buy

definition handler :: "endpoint \<Rightarrow> env \<Rightarrow> request \<Rightarrow> outcome" where
  "handler ep =
     (case ep of Root \<Rightarrow> root | SellPrice \<Rightarrow> sell_price | BuyPrice \<Rightarrow> buy_price
               | Sell \<Rightarrow> sell | Buy \<Rightarrow> buy)"

definition router :: "env \<Rightarrow> endpoint \<Rightarrow> request \<Rightarrow> outcome" where
  "router E ep req =
     (if client_authorized req then handler ep E req
      else if cert_subject req then
        \<lparr>sent = Some \<lparr>status = 403,
                        json = [(''error'', JVal (Str (ssl_cert_invalid (statusMessages E))))]\<rparr>,
         calls = []\<rparr>
      else
        \<lparr>sent = Some \<lparr>status = 401,
                        json = [(''error'', JVal (Str (ssl_cert_required (statusMessages E))))]\<rparr>,
         calls = []\<rparr>)"

section \<open>The Balancer router\<close>

text \<open>
  The two handlers have no \<open>try\<close> block and the router has no middleware: when a
  service call or the wallet constructor throws, nothing is sent.
\<close>

text \<open>\<open>GET /price\<close>\<close>

definition balancer_price :: "env \<Rightarrow> request \<Rightarrow> outcome" where
  "balancer_price E req =
     (let initTime = now_entry E;
          tokenIn = tokenIn (query req);
          tokenOut = tokenOut (query req);
          amount = toBaseUnits (amount (query req));
          c1 = GetSwaps (erc20Tokens E tokenIn) (erc20Tokens E tokenOut) amount
      in case getSwaps E (erc20Tokens E tokenIn) (erc20Tokens E tokenOut) amount of
           Inl err \<Rightarrow> \<lparr>sent = None, calls = [c1]\<rparr>
         | Inr (swaps, expectedOut) \<Rightarrow>
             \<lparr>sent = Some
                \<lparr>status = 200,
                 json =
                   [(''network'', JVal (balancer_network E)),
                    (''timestamp'', JVal (Num (Fin (of_int initTime)))),
                    (''latency'', JVal (Num (latency initTime (now_format E)))),
                    (''tokenIn'', JVal tokenIn),
                    (''tokenOut'', JVal tokenOut),
                    (''amount'', JVal (Num (parseFloat (params.amount (query req))))),
                    (''expectedOut'', JVal (Num (fromBaseUnits (parseInt expectedOut)))),
                    (''price'', JVal (Num (num_div amount (ToNumber expectedOut)))),
                    (''swaps'', JList swaps)]\<rparr>,
              calls = [c1]\<rparr>)"

text \<open>\<open>GET /trade\<close>. The key comes from the process environment; when the guard fails
  the handler only logs.\<close>

definition balancer_trade :: "env \<Rightarrow> request \<Rightarrow> outcome" where
  "balancer_trade E req =
     (let initTime = now_entry E;
          privateKey = Str (''0x'' @ ToString (ETH_PRIVATE_KEY E))
      in case new_Wallet E privateKey of
           Inl err \<Rightarrow> \<lparr>sent = None, calls = []\<rparr>
         | Inr wallet \<Rightarrow>
             (let tokenIn = tokenIn (query req);
                  tokenOut = tokenOut (query req);
                  amount = toBaseUnits (amount (query req));
                  amountString = num_to_string (toBaseUnits (params.amount (query req)));
                  maxPrice = optional_number (maxPrice (query req));
                  c1 = GetSwaps (erc20Tokens E tokenIn) (erc20Tokens E tokenOut) amount
              in case getSwaps E (erc20Tokens E tokenIn) (erc20Tokens E tokenOut) amount of
                   Inl err \<Rightarrow> \<lparr>sent = None, calls = [c1]\<rparr>
                 | Inr (swaps, expectedOut) \<Rightarrow>
                     (let price = num_div amount (ToNumber expectedOut)
                      in if \<not> truthy maxPrice \<or> js_le (Num price) maxPrice then
                           (let c2 = BatchSwapExactIn wallet swaps (erc20Tokens E tokenIn)
                                       (erc20Tokens E tokenOut) amountString
                            in case batchSwapExactIn E wallet swaps (erc20Tokens E tokenIn)
                                      (erc20Tokens E tokenOut) amountString of
                                 Inl err \<Rightarrow> \<lparr>sent = None, calls = [c1, c2]\<rparr>
                               | Inr txHash \<Rightarrow>
                                   \<lparr>sent = Some
                                      \<lparr>status = 200,
                                       json =
                                         [(''network'', JVal (balancer_network E)),
                                          (''timestamp'', JVal (Num (Fin (of_int initTime)))),
                                          (''latency'', JVal (Num (latency initTime (now_format E)))),
                                          (''tokenIn'', JVal tokenIn),
                                          (''tokenOut'', JVal tokenOut),
                                          (''amount'', JVal (Num (parseFloat (params.amount (query req))))),
                                          (''expectedOut'',
                                             JVal (Num (fromBaseUnits (ToNumber expectedOut)))),
                                          (''price'', JVal (Num price)),
                                          (''txHash'', JVal txHash)]\<rparr>,
                                    calls = [c1, c2]\<rparr>)
                         else \<lparr>sent = None, calls = [c1]\<rparr>)))"

datatype balancer_endpoint = Price | Trade

definition balancer_router :: "env \<Rightarrow> balancer_endpoint \<Rightarrow> request \<Rightarrow> outcome" where
  "balancer_router E ep req =
     (case ep of Price \<Rightarrow> balancer_price E req | Trade \<Rightarrow> balancer_trade E req)"

section \<open>Observations on an outcome\<close>

text \<open>Whether a transaction was handed to the trade executor of either service.\<close>

fun is_swap :: "call \<Rightarrow> bool" where
  "is_swap (SwapExactIn _ _ _ _ _) = True"
| "is_swap (BatchSwapExactIn _ _ _ _ _) = True"
| "is_swap _ = False"

definition executed :: "outcome \<Rightarrow> bool" where
  "executed out = list_ex is_swap (calls out)"

fun is_route_query :: "call \<Rightarrow> bool" where
  "is_route_query (FetchRoute _ _) = True"
| "is_route_query (GetSwaps _ _ _) = True"
| "is_route_query _ = False"

definition queried :: "outcome \<Rightarrow> bool" where
  "queried out = list_ex is_route_query (calls out)"

text \<open>The names of the fields of a response, and the value of one field.\<close>

definition fields :: "response \<Rightarrow> string list" where
  "fields r = map fst (json r)"

definition field :: "response \<Rightarrow> string \<Rightarrow> json option" where
  "field r k = map_of (json r) k"

section \<open>A concrete setting for the examples\<close>

text \<open>
  One pool trading \<open>TOKEN_A\<close> against \<open>TOKEN_B\<close> at 95 \<open>TOKEN_B\<close> per \<open>TOKEN_A\<close>; a
  route is priced in units of its output token per unit of its input token. The
  formatter stands in for the SDK's \<open>toSignificant\<close>: it prints the shortest decimal of
  the quotient, which is exact for the prices used here. The wallet constructor accepts
  a \<open>0x\<close>-prefixed string of 64 hexadecimal digits.
\<close>

definition sample_messages :: status_messages where
  "sample_messages =
     \<lparr>ssl_cert_required = ''ssl_cert_required'', ssl_cert_invalid = ''ssl_cert_invalid'',
      operation_error = ''operation_error'', no_pool_available = ''no_pool_available''\<rparr>"

definition sample_fetch_route :: "jsval \<Rightarrow> jsval \<Rightarrow> js_error + route option" where
  "sample_fetch_route tIn tOut =
     Inr (Some \<lparr>midPrice =
                  (if tIn = Str ''TOKEN_A''
                   then \<lparr>baseCurrency = tIn, quoteCurrency = tOut, numerator = 95, denominator = 1\<rparr>
                   else \<lparr>baseCurrency = tIn, quoteCurrency = tOut, numerator = 1, denominator = 95\<rparr>),
                path = [tIn, tOut]\<rparr>)"

definition sample_toSignificant :: "price \<Rightarrow> nat \<Rightarrow> string" where
  "sample_toSignificant p n = num_to_string (fl (of_int (numerator p) / of_int (denominator p)))"

definition sample_valid_key :: "jsval \<Rightarrow> bool" where
  "sample_valid_key k =
     (case k of
        Str s \<Rightarrow> length s = 66 \<and> take 2 s = ''0x'' \<and> list_all (is_radix_digit 16) (drop 2 s)
      | _ \<Rightarrow> False)"

definition sample_receipt :: txobj where
  "sample_receipt = \<lparr>gasUsed = Str ''21000'', transactionHash = Str ''0xabc'', txStatus = Num (Fin 1)\<rparr>"

definition sample_env :: env where
  "sample_env =
     \<lparr>network = Str ''kovan'',
      provider_url = Str ''https://kovan.example'',
      exchangeProxy = Str ''0xproxy'',
      subgraphUrl = Undefined,
      statusMessages = sample_messages,
      valid_key = sample_valid_key,
      key_error = \<lparr>reason = Str ''invalid private key'', description = ''Error''\<rparr>,
      fetch_route = sample_fetch_route,
      toSignificant = sample_toSignificant,
      swapExactIn = (\<lambda>w r t a g. Inr sample_receipt),
      balancer_network = Str ''kovan'',
      erc20Tokens = (\<lambda>t. if t = Str ''DAI'' then Str ''0xdai''
                          else if t = Str ''WETH'' then Str ''0xweth'' else Undefined),
      ETH_PRIVATE_KEY = Str (replicate 64 (CHR ''2'')),
      getSwaps = (\<lambda>tIn tOut a. Inr ([Str ''pool''], Str ''500000000000000000'')),
      batchSwapExactIn = (\<lambda>w s tIn tOut a. Inr (Str ''0xdef'')),
      now_entry = 1000,
      now_format = 1250\<rparr>"

definition sample_key :: jsval where
  "sample_key = Str (''0x'' @ replicate 64 (CHR ''1''))"

text \<open>A body with the required trade parameters and a given \<open>maxPrice\<close>.\<close>

definition sample_params :: "jsval \<Rightarrow> params" where
  "sample_params mp =
     \<lparr>base = Str ''TOKEN_A'', quote = Str ''TOKEN_B'', amount = Str ''1'', maxPrice = mp,
      gasPrice = Undefined, privateKey = sample_key, tokenIn = Str ''DAI'', tokenOut = Str ''WETH''\<rparr>"

definition sample_request :: "bool \<Rightarrow> jsval \<Rightarrow> request" where
  "sample_request auth mp =
     \<lparr>client_authorized = auth, cert_subject = False,
      body = sample_params mp, query = sample_params mp\<rparr>"

text \<open>The failure with which a service call ends, if it throws.\<close>

fun thrown :: "env \<Rightarrow> call \<Rightarrow> js_error option" where
  "thrown E (FetchRoute a b) =
     (case fetch_route E a b of Inl e \<Rightarrow> Some e | Inr _ \<Rightarrow> None)"
| "thrown E (SwapExactIn w r t a g) =
     (case swapExactIn E w r t a g of Inl e \<Rightarrow> Some e | Inr _ \<Rightarrow> None)"
| "thrown E (GetSwaps a b n) =
     (case getSwaps E a b n of Inl e \<Rightarrow> Some e | Inr _ \<Rightarrow> None)"
| "thrown E (BatchSwapExactIn w s a b n) =
     (case batchSwapExactIn E w s a b n of Inl e \<Rightarrow> Some e | Inr _ \<Rightarrow> None)"

text \<open>The same setting with no route between the two tokens, with a route query that
  fails, and with a trade that reverts.\<close>

definition no_route_env :: env where
  "no_route_env = sample_env\<lparr>fetch_route := (\<lambda>tIn tOut. Inr None)\<rparr>"

definition revert_error :: js_error where
  "revert_error = \<lparr>reason = Str ''transaction failed'', description = ''Error''\<rparr>"

definition network_error :: js_error where
  "network_error = \<lparr>reason = Undefined, description = ''Error: timeout''\<rparr>"

definition offline_env :: env where
  "offline_env = sample_env\<lparr>fetch_route := (\<lambda>tIn tOut. Inl network_error)\<rparr>"

definition revert_env :: env where
  "revert_env = sample_env\<lparr>swapExactIn := (\<lambda>w r t a g. Inl revert_error)\<rparr>"

text \<open>A trade request that carries no private key.\<close>

definition keyless_request :: request where
  "keyless_request =
     \<lparr>client_authorized = True, cert_subject = True,
      body = (sample_params Undefined)\<lparr>privateKey := Undefined\<rparr>,
      query = sample_params Undefined\<rparr>"


section \<open>Properties of the number model\<close>

subsection \<open>Rounding\<close>

lemma two_powi_add: "(2::rat) powi (a + b) = 2 powi a * 2 powi b"
  by (simp add: power_int_add)

lemma two_powi_diff: "(2::rat) powi (a - b) = 2 powi a / 2 powi b"
  by (simp add: power_int_diff)

lemma bitlen_powi_bounds:
  assumes "0 < (x::int)"
  shows "(2::rat) powi (bitlen x - 1) \<le> of_int x" and "of_int x < (2::rat) powi (bitlen x)"
proof -
  have b1: "1 \<le> bitlen x" using assms by (simp add: bitlen_alt_def)
  from bitlen_bounds [OF assms]
  have lo: "2 ^ nat (bitlen x - 1) \<le> x" and hi: "x < 2 ^ nat (bitlen x)" by simp_all
  have "(of_int (2 ^ nat (bitlen x - 1)) :: rat) \<le> of_int x"
    using lo by (simp only: of_int_le_iff)
  then show "(2::rat) powi (bitlen x - 1) \<le> of_int x"
    using b1 by (simp add: power_int_nonneg_exp)
  have "(of_int x :: rat) < of_int (2 ^ nat (bitlen x))"
    using hi by (simp only: of_int_less_iff)
  then show "of_int x < (2::rat) powi (bitlen x)"
    using b1 by (simp add: power_int_nonneg_exp)
qed

lemma ilog2_bounds:
  assumes "0 < q"
  shows "2 powi (ilog2 q) \<le> q" and "q < 2 powi (ilog2 q + 1)"
proof -
  obtain p d where pd: "quotient_of q = (p, d)" by fastforce
  have d: "0 < d" using quotient_of_denom_pos [OF pd] .
  have q: "q = of_int p / of_int d" using quotient_of_div [OF pd] .
  have p: "0 < p" using assms d q by (simp add: zero_less_divide_iff)
  define g where "g = bitlen p - bitlen d"
  note P = bitlen_powi_bounds [OF p] and D = bitlen_powi_bounds [OF d]
  have dpos: "(0::rat) < of_int d" using d by simp
  have lower: "2 powi (g - 1) \<le> q"
  proof -
    have "g - 1 = (bitlen p - 1) - bitlen d" by (simp add: g_def)
    then have "2 powi (g - 1) = (2::rat) powi (bitlen p - 1) / 2 powi (bitlen d)"
      by (simp only: two_powi_diff)
    also have "\<dots> \<le> of_int p / 2 powi (bitlen d)"
      using P(1) by (simp add: divide_right_mono)
    also have "\<dots> \<le> of_int p / of_int d"
      using D(2) dpos p by (intro divide_left_mono) (auto intro: mult_pos_pos)
    finally show ?thesis using q by simp
  qed
  have upper: "q < 2 powi (g + 1)"
  proof -
    have "q = of_int p / of_int d" by (fact q)
    also have "\<dots> < 2 powi (bitlen p) / of_int d"
      using P(2) dpos by (simp add: divide_strict_right_mono)
    also have "\<dots> \<le> 2 powi (bitlen p) / 2 powi (bitlen d - 1)"
      using D(1) dpos by (intro divide_left_mono) (auto intro: mult_pos_pos)
    also have "\<dots> = (2::rat) powi (g + 1)"
    proof -
      have "g + 1 = bitlen p - (bitlen d - 1)" by (simp add: g_def)
      then show ?thesis by (simp only: two_powi_diff)
    qed
    finally show ?thesis .
  qed
  have eq: "ilog2 q = (if 2 powi g \<le> q then g else g - 1)"
    by (simp add: ilog2_def pd g_def Let_def)
  show "2 powi (ilog2 q) \<le> q" using lower by (simp add: eq)
  show "q < 2 powi (ilog2 q + 1)" using upper by (auto simp add: eq not_le)
qed


lemma round_even_of_int [simp]: "round_even (of_int n) = n"
  by (simp add: round_even_def)

lemma fl_exact:
  assumes q: "q = of_int m * 2 powi e" and m: "\<bar>m\<bar> < 2 ^ 53" and e: "- 1074 \<le> e"
    and fin: "\<bar>q\<bar> < 2 ^ 1024"
  shows "fl q = Fin q"
proof (cases "q = 0")
  case True
  then show ?thesis by (simp add: fl_def)
next
  case False
  define a where "a = \<bar>q\<bar>"
  define e' where "e' = max (ilog2 a - 52) (- 1074)"
  have a: "a = of_int \<bar>m\<bar> * 2 powi e" by (simp add: a_def q abs_mult)
  have apos: "0 < a" using False by (simp add: a_def)
  have "2 powi (ilog2 a) \<le> a" by (rule ilog2_bounds [OF apos])
  also have "a < of_int (2 ^ 53) * 2 powi e"
    unfolding a using m by (intro mult_strict_right_mono) (simp_all only: of_int_less_iff zero_less_power_int zero_less_numeral)
  also have "\<dots> = 2 powi (e + 53)" by (simp add: two_powi_add)
  finally have "ilog2 a < e + 53"
    by (metis linorder_not_less one_le_numeral power_int_increasing)
  then have le: "e' \<le> e" using e by (simp add: e'_def)
  have "a / 2 powi e' = of_int \<bar>m\<bar> * 2 powi (e - e')"
    by (simp add: a two_powi_diff)
  also have "\<dots> = of_int (\<bar>m\<bar> * 2 ^ nat (e - e'))"
    using le by (simp add: power_int_nonneg_exp)
  finally have quot: "a / 2 powi e' = of_int (\<bar>m\<bar> * 2 ^ nat (e - e'))" .
  have v: "of_int (round_even (a / 2 powi e')) * 2 powi e' = a"
    unfolding quot round_even_of_int unfolding quot [symmetric] by simp
  have "fl q = Fin (sgn q * a)"
    using False fin v apos
    by (simp add: fl_def Let_def a_def [symmetric] e'_def [symmetric] not_le)
  also have "sgn q * a = q" by (simp add: a_def sgn_if)
  finally show ?thesis .
qed

lemma fl_of_int: "\<bar>n\<bar> < 2 ^ 53 \<Longrightarrow> fl (of_int n) = Fin (of_int n)"
proof -
  assume n: "\<bar>n\<bar> < 2 ^ 53"
  have "\<bar>of_int n :: rat\<bar> < of_int (2 ^ 53)"
    using n by (simp only: of_int_abs [symmetric] of_int_less_iff)
  also have "(of_int (2 ^ 53) :: rat) < 2 ^ 1024" by simp
  finally show ?thesis using n by (intro fl_exact [where m = n and e = 0]) simp_all
qed

lemma fl_0: "fl 0 = Fin 0"
  by (simp add: fl_def)

lemma fl_1: "fl 1 = Fin 1"
  using fl_of_int [of 1] by simp

lemma fl_numeral: "(numeral k :: int) < 2 ^ 53 \<Longrightarrow> fl (numeral k) = Fin (numeral k)"
  using fl_of_int [of "numeral k"] by simp

lemma fl_neg_numeral:
  "(numeral k :: int) < 2 ^ 53 \<Longrightarrow> fl (- numeral k) = Fin (- numeral k)"
  using fl_of_int [of "- numeral k"] by simp

lemmas fl_simps = fl_0 fl_1 fl_numeral fl_neg_numeral

subsection \<open>Evaluation rules\<close>

text \<open>Rules by which the simplifier evaluates the conversions on literals.\<close>

lemma floor_rat_numeral_div:
  "\<lfloor>(numeral a :: rat) / numeral b\<rfloor> = numeral a div numeral b"
  using floor_divide_of_int_eq [of "numeral a" "numeral b", where ?'a = rat] by simp

lemma floor_rat_one_div: "\<lfloor>(1 :: rat) / numeral b\<rfloor> = 1 div numeral b"
  using floor_divide_of_int_eq [of 1 "numeral b", where ?'a = rat] by simp

lemma replicate_numeral: "replicate (numeral k) x = x # replicate (pred_numeral k) x"
  by (simp add: numeral_eq_Suc)

lemma declen_numeral:
  "declen (numeral k) = declen (numeral k div 10) + 1"
  by (subst declen.simps) simp

lemma declen_0: "declen 0 = 0"
  by (subst declen.simps) simp

lemma declen_1: "declen 1 = 1"
  by (subst declen.simps) (simp add: declen_0)

lemma digits_of_small: "n < 10 \<Longrightarrow> digits_of n = [char_of (48 + n)]"
  by (subst digits_of.simps) simp

lemma digits_of_large:
  "10 \<le> n \<Longrightarrow> digits_of n = digits_of (n div 10) @ [char_of (48 + n mod 10)]"
  by (subst digits_of.simps) simp

lemma upt_1_22:
  "[Suc 0..<22] = [1,2,3,4,5,6,7,8,9,10,11,12,13,14,15,16,17,18,19,20,21]"
  by (simp add: upt_rec)

lemmas tostring_defs = pos_to_string_def shortest_digits_def decimal_exponent_def
  digits_cand_def declen_numeral declen_0 declen_1 digits_of_small digits_of_large Let_def
  upt_1_22 char_of_def floor_rat_numeral_div floor_rat_one_div replicate_numeral


subsection \<open>White space\<close>

lemma strip_Nil: "strip ws [] = []"
proof -
  have "find (\<lambda>w. w \<noteq> [] \<and> take (length w) [] = w) ws = None"
    by (auto simp add: find_None_iff)
  then show ?thesis by (subst strip.simps) simp
qed

lemma strip_no_head:
  assumes "\<forall>w \<in> set ws. w = [] \<or> hd w \<noteq> c"
  shows "strip ws (c # cs) = c # cs"
proof -
  have "find (\<lambda>w. w \<noteq> [] \<and> take (length w) (c # cs) = w) ws = None"
  proof (simp only: find_None_iff, intro notI)
    assume "\<exists>w. w \<in> set ws \<and> (w \<noteq> [] \<and> take (length w) (c # cs) = w)"
    then obtain w where w: "w \<in> set ws" "w \<noteq> []" "take (length w) (c # cs) = w" by blast
    from w(2) obtain x xs where "w = x # xs" by (cases w) auto
    with w(3) have "hd w = c" by simp
    with assms w(1,2) show False by blast
  qed
  then show ?thesis by (subst strip.simps) simp
qed

lemma strip_head:
  assumes "find (\<lambda>w. w \<noteq> [] \<and> take (length w) s = w) ws = Some w"
  shows "strip ws s = strip ws (drop (length w) s)"
  using assms by (subst strip.simps) simp

lemma trim_left_Nil: "trim_left [] = []"
  by (simp add: trim_left_def strip_Nil)

lemma trim_left_no_ws:
  assumes "(of_char c :: int) \<notin> {9, 10, 11, 12, 13, 32, 194, 225, 226, 227, 239}"
  shows "trim_left (c # cs) = c # cs"
  unfolding trim_left_def
  by (rule strip_no_head) (use assms in \<open>auto simp add: white_space_def\<close>)

lemma strip_rev_no_ws:
  assumes "(of_char d :: int) \<notin>
           {9, 10, 11, 12, 13, 32, 128, 129, 130, 131, 132, 133, 134, 135, 136, 137, 138,
            159, 160, 168, 169, 175, 191}"
  shows "strip (map rev white_space) (d # ds) = d # ds"
  by (rule strip_no_head) (use assms in \<open>auto simp add: white_space_def\<close>)

lemma trim_Nil: "trim [] = []"
  by (simp add: trim_def strip_Nil)

lemma trim_no_ws:
  assumes "s \<noteq> []"
    and "(of_char (hd s) :: int) \<notin> {9, 10, 11, 12, 13, 32, 194, 225, 226, 227, 239}"
    and "(of_char (last s) :: int) \<notin>
           {9, 10, 11, 12, 13, 32, 128, 129, 130, 131, 132, 133, 134, 135, 136, 137, 138,
            159, 160, 168, 169, 175, 191}"
  shows "trim s = s"
proof -
  from assms(1) obtain c cs where s: "s = c # cs" by (cases s) auto
  have 1: "strip white_space s = s"
    using trim_left_no_ws [of c cs] assms(2) by (simp add: s trim_left_def)
  from assms(1) obtain d ds where r: "rev s = d # ds" by (cases "rev s") auto
  have d: "last s = d" using r assms(1) by (metis hd_rev list.sel(1))
  have 2: "strip (map rev white_space) (rev s) = rev s"
    unfolding r using assms(3) unfolding d by (rule strip_rev_no_ws)
  show ?thesis by (simp add: trim_def 1 2)
qed


lemmas parse_defs = parseFloat_def parseInt_def parseFloat_str_def parseInt_str_def ToNumber_str_def
  trim_left_Nil trim_left_no_ws trim_Nil trim_no_ws signed_number_def
  scan_decimal_def scan_exponent_def is_digit_def
  digits_val_def radix_prefix_def radix_val_def radix_digit_def is_radix_digit_def Let_def


text \<open>Leading white space is skipped, be it an ASCII space or a no-break space.\<close>

lemma trim_left_space: "trim_left (CHR '' '' # cs) = trim_left cs"
  unfolding trim_left_def by (subst strip.simps) (simp add: white_space_def)

lemma trim_left_nbsp: "trim_left (CHR 0xC2 # CHR 0xA0 # cs) = trim_left cs"
  unfolding trim_left_def by (subst strip.simps) (simp add: white_space_def)

lemma parseFloat_nbsp: "parseFloat (Str [CHR 0xC2, CHR 0xA0, CHR ''5'']) = Fin 5"
  by (simp add: trim_left_nbsp parse_defs fl_simps)


subsection \<open>Multiplication and division of finite Numbers\<close>

lemma num_mul_Fin [simp]:
  "num_mul (Fin a) (Fin b) =
     (if a = 0 \<or> b = 0 then (if (a < 0) \<noteq> (b < 0) then NegZero else Fin 0) else fl (a * b))"
  by (simp add: num_mul_def zero_of_def)

lemma num_div_Fin [simp]:
  "num_div (Fin a) (Fin b) =
     (if b = 0 then (if a = 0 then NaN else if a < 0 then NegInf else PosInf)
      else if a = 0 then (if b < 0 then NegZero else Fin 0)
      else fl (a / b))"
  by (simp add: num_div_def zero_of_def inf_of_def)

lemma num_mul_NaN [simp]: "num_mul NaN b = NaN" "num_mul a NaN = NaN"
  by (simp_all add: num_mul_def)

lemma num_div_NaN [simp]: "num_div NaN b = NaN" "num_div a NaN = NaN"
  by (simp_all add: num_div_def)

text \<open>A zero divisor gives an infinity with the sign of the quotient: a positive amount
  divided by the negative zero is the negative infinity, which is below every bound.\<close>

lemma negative_zero_divisor:
  "ToNumber (Str ''-0'') = NegZero"
  "num_div (Fin 1) NegZero = NegInf"
  "num_le NegInf (Fin 1)"
  by (simp_all add: parse_defs num_div_def inf_of_def)


subsection \<open>Rounding a given rational\<close>


subsection \<open>Monotonicity of rounding\<close>









subsection \<open>Doubles\<close>





subsection \<open>Decimal exponent\<close>







subsection \<open>Digit strings\<close>






lemma digits_of_ne: "digits_of s \<noteq> []"
  by (subst digits_of.simps) simp





subsection \<open>Reading an integer from a digit string\<close>






subsection \<open>The shortest digits\<close>






subsection \<open>\<open>parseInt\<close> of a Number in positional notation\<close>







subsection \<open>Rounding error\<close>




section \<open>The claims\<close>

lemmas handler_defs = router_def handler_def root_def sell_price_def buy_price_def sell_def buy_def
  balancer_router_def balancer_price_def balancer_trade_def catch_block_def no_pool_response_def
  new_Wallet_def getParamData_def optional_number_def quote_json_def trade_json_def
  fromBaseUnits_def Let_def

lemmas observe_defs = executed_def queried_def fields_def field_def

lemma sample_env_simps:
  "network sample_env = Str ''kovan''"
  "statusMessages sample_env = sample_messages"
  "valid_key sample_env = sample_valid_key"
  "key_error sample_env = \<lparr>reason = Str ''invalid private key'', description = ''Error''\<rparr>"
  "fetch_route sample_env = sample_fetch_route"
  "toSignificant sample_env = sample_toSignificant"
  "swapExactIn sample_env = (\<lambda>w r t a g. Inr sample_receipt)"
  "balancer_network sample_env = Str ''kovan''"
  "erc20Tokens sample_env = (\<lambda>t. if t = Str ''DAI'' then Str ''0xdai''
                                  else if t = Str ''WETH'' then Str ''0xweth'' else Undefined)"
  "ETH_PRIVATE_KEY sample_env = Str (replicate 64 (CHR ''2''))"
  "getSwaps sample_env = (\<lambda>tIn tOut a. Inr ([Str ''pool''], Str ''500000000000000000''))"
  "batchSwapExactIn sample_env = (\<lambda>w s tIn tOut a. Inr (Str ''0xdef''))"
  "now_entry sample_env = 1000"
  "now_format sample_env = 1250"
  by (simp_all add: sample_env_def)

lemma sample_request_simps:
  "client_authorized (sample_request a mp) = a"
  "cert_subject (sample_request a mp) = False"
  "body (sample_request a mp) = sample_params mp"
  "query (sample_request a mp) = sample_params mp"
  by (simp_all add: sample_request_def)

lemma sample_params_simps:
  "base (sample_params mp) = Str ''TOKEN_A''"
  "quote (sample_params mp) = Str ''TOKEN_B''"
  "amount (sample_params mp) = Str ''1''"
  "maxPrice (sample_params mp) = mp"
  "gasPrice (sample_params mp) = Undefined"
  "privateKey (sample_params mp) = sample_key"
  "tokenIn (sample_params mp) = Str ''DAI''"
  "tokenOut (sample_params mp) = Str ''WETH''"
  by (simp_all add: sample_params_def)

lemma sample_messages_simps:
  "ssl_cert_required sample_messages = ''ssl_cert_required''"
  "ssl_cert_invalid sample_messages = ''ssl_cert_invalid''"
  "operation_error sample_messages = ''operation_error''"
  "no_pool_available sample_messages = ''no_pool_available''"
  by (simp_all add: sample_messages_def)

lemma sample_key_valid: "sample_valid_key sample_key"
  by (simp add: sample_valid_key_def sample_key_def is_radix_digit_def radix_digit_def list_all_iff)

lemma sample_env_key_valid:
  "sample_valid_key (Str (CHR ''0'' # CHR ''x'' # replicate 64 (CHR ''2'')))"
  by (simp add: sample_valid_key_def is_radix_digit_def radix_digit_def list_all_iff)

lemmas sample_simps = sample_env_simps sample_request_simps sample_params_simps
  sample_messages_simps sample_key_valid sample_env_key_valid

subsection \<open>Outcomes of the example requests\<close>

lemma pos_to_string_1e18: "pos_to_string 1000000000000000000 = ''1000000000000000000''"
  by (simp add: tostring_defs fl_simps fl_exact [where m = "5 ^ 18" and e = 18]
        fl_exact [where m = "5 ^ 18" and e = 19])

lemma parseInt_str_1e18: "parseInt_str ''1000000000000000000'' = Fin 1000000000000000000"
  by (simp add: parse_defs fl_exact [where m = "5 ^ 18" and e = 18])

lemma toBaseUnits_one: "toBaseUnits (Str ''1'') = Fin 1000000000000000000"
proof -
  have "num_mul (ToNumber (Str ''1'')) denomMultiplier = Fin 1000000000000000000"
    by (simp add: parse_defs fl_simps denomMultiplier_def fl_exact [where m = "5 ^ 18" and e = 18])
  then show ?thesis
    by (simp add: toBaseUnits_def parseInt_def pos_to_string_1e18 parseInt_str_1e18)
qed

lemma sample_expectedOut: "ToNumber_str ''500000000000000000'' = Fin 500000000000000000"
  by (simp add: parse_defs fl_exact [where m = "5 ^ 18" and e = 17])

lemma sample_sell_price_string:
  "sample_toSignificant
     \<lparr>baseCurrency = b, quoteCurrency = q, numerator = 95, denominator = 1\<rparr> n = ''95''"
  by (simp add: sample_toSignificant_def tostring_defs fl_simps)

lemma sample_buy_price_string:
  "sample_toSignificant
     (invert \<lparr>baseCurrency = b, quoteCurrency = q, numerator = 1, denominator = 95\<rparr>) n = ''95''"
  by (simp add: sample_toSignificant_def invert_def tostring_defs fl_simps)

lemma sample_quote:
  "router sample_env SellPrice (sample_request True Undefined) =
     \<lparr>sent = Some
        \<lparr>status = 200,
         json = [(''network'', JVal (Str ''kovan'')),
                 (''timestamp'', JVal (Num (Fin 1000))),
                 (''latency'', JVal (Num (Fin 250))),
                 (''base'', JVal (Str ''TOKEN_A'')),
                 (''quote'', JVal (Str ''TOKEN_B'')),
                 (''amount'', JVal (Num (Fin 1))),
                 (''expectedOut'', JVal (Num (Fin 95))),
                 (''price'', JVal (Str ''95'')),
                 (''swaps'', JList [Str ''TOKEN_A'', Str ''TOKEN_B''])]\<rparr>,
      calls = [FetchRoute (Str ''TOKEN_A'') (Str ''TOKEN_B'')]\<rparr>"
  by (simp add: handler_defs sample_simps sample_fetch_route_def sample_sell_price_string
        latency_def parse_defs fl_simps tostring_defs)

lemma sample_balancer_quote:
  "balancer_router sample_env Price (sample_request True Undefined) =
     \<lparr>sent = Some
        \<lparr>status = 200,
         json = [(''network'', JVal (Str ''kovan'')),
                 (''timestamp'', JVal (Num (Fin 1000))),
                 (''latency'', JVal (Num (Fin 250))),
                 (''tokenIn'', JVal (Str ''DAI'')),
                 (''tokenOut'', JVal (Str ''WETH'')),
                 (''amount'', JVal (Num (Fin 1))),
                 (''expectedOut'', JVal (Num (Fin (1 / 2)))),
                 (''price'', JVal (Num (Fin 2))),
                 (''swaps'', JList [Str ''pool''])]\<rparr>,
      calls = [GetSwaps (Str ''0xdai'') (Str ''0xweth'') (Fin 1000000000000000000)]\<rparr>"
proof -
  have 1: "parseInt (Str ''500000000000000000'') = Fin 500000000000000000"
    by (simp add: parse_defs fl_exact [where m = "5 ^ 18" and e = 17])
  have 2: "parseFloat (Str ''1'') = Fin 1"
    by (simp add: parse_defs fl_simps)
  have 3: "fl (1 / 2) = Fin (1 / 2)"
    by (rule fl_exact [where m = 1 and e = "- 1"]) simp_all
  show ?thesis
    by (simp add: handler_defs sample_simps toBaseUnits_one sample_expectedOut 1 2 3
          latency_def fl_simps)
qed

lemma sample_buy:
  "buy sample_env (sample_request True Undefined) =
     \<lparr>sent = Some
        \<lparr>status = 200,
         json = [(''network'', JVal (Str ''kovan'')),
                 (''timestamp'', JVal (Num (Fin 1000))),
                 (''latency'', JVal (Num (Fin 250))),
                 (''base'', JVal (Str ''TOKEN_A'')),
                 (''quote'', JVal (Str ''TOKEN_B'')),
                 (''amount'', JVal (Num (Fin 1))),
                 (''expectedIn'', JVal (Num (Fin 95))),
                 (''price'', JVal (Str ''95'')),
                 (''gasUsed'', JVal (Num (Fin 21000))),
                 (''txHash'', JVal (Str ''0xabc'')),
                 (''status'', JVal (Num (Fin 1)))]\<rparr>,
      calls = [FetchRoute (Str ''TOKEN_B'') (Str ''TOKEN_A''),
               SwapExactIn (Wallet sample_key)
                 \<lparr>midPrice = \<lparr>baseCurrency = Str ''TOKEN_B'', quoteCurrency = Str ''TOKEN_A'',
                               numerator = 1, denominator = 95\<rparr>,
                  path = [Str ''TOKEN_B'', Str ''TOKEN_A'']\<rparr>
                 (Str ''TOKEN_B'') (Fin 1000000000000000000) Undefined]\<rparr>"
  by (simp add: handler_defs sample_simps sample_fetch_route_def sample_buy_price_string
        toBaseUnits_one sample_receipt_def latency_def parse_defs fl_simps tostring_defs)

lemma sample_balancer_trade:
  "balancer_trade sample_env (sample_request True Undefined) =
     \<lparr>sent = Some
        \<lparr>status = 200,
         json = [(''network'', JVal (Str ''kovan'')),
                 (''timestamp'', JVal (Num (Fin 1000))),
                 (''latency'', JVal (Num (Fin 250))),
                 (''tokenIn'', JVal (Str ''DAI'')),
                 (''tokenOut'', JVal (Str ''WETH'')),
                 (''amount'', JVal (Num (Fin 1))),
                 (''expectedOut'', JVal (Num (Fin (1 / 2)))),
                 (''price'', JVal (Num (Fin 2))),
                 (''txHash'', JVal (Str ''0xdef''))]\<rparr>,
      calls = [GetSwaps (Str ''0xdai'') (Str ''0xweth'') (Fin 1000000000000000000),
               BatchSwapExactIn (Wallet (Str (''0x'' @ replicate 64 (CHR ''2''))))
                 [Str ''pool''] (Str ''0xdai'') (Str ''0xweth'') ''1000000000000000000'']\<rparr>"
proof -
  have 2: "parseFloat (Str ''1'') = Fin 1"
    by (simp add: parse_defs fl_simps)
  have 3: "fl (1 / 2) = Fin (1 / 2)"
    by (rule fl_exact [where m = 1 and e = "- 1"]) simp_all
  show ?thesis
    by (simp add: handler_defs sample_simps toBaseUnits_one sample_expectedOut 2 3
          pos_to_string_1e18 latency_def fl_simps)
qed

lemma sample_buy_quote:
  "buy_price sample_env (sample_request True Undefined) =
     \<lparr>sent = Some
        \<lparr>status = 200,
         json = [(''network'', JVal (Str ''kovan'')),
                 (''timestamp'', JVal (Num (Fin 1000))),
                 (''latency'', JVal (Num (Fin 250))),
                 (''base'', JVal (Str ''TOKEN_A'')),
                 (''quote'', JVal (Str ''TOKEN_B'')),
                 (''amount'', JVal (Num (Fin 1))),
                 (''expectedIn'', JVal (Num (Fin 95))),
                 (''price'', JVal (Str ''95'')),
                 (''swaps'', JList [Str ''TOKEN_B'', Str ''TOKEN_A''])]\<rparr>,
      calls = [FetchRoute (Str ''TOKEN_B'') (Str ''TOKEN_A'')]\<rparr>"
  by (simp add: handler_defs sample_simps sample_fetch_route_def sample_buy_price_string
        latency_def parse_defs fl_simps tostring_defs)

lemma sample_buy_rejected:
  "buy sample_env (sample_request True (Str ''50'')) =
     \<lparr>sent = Some
        \<lparr>status = 200,
         json = [(''error'', JVal (Str ''Swap price exceeds maxPrice'')),
                 (''message'', JVal (Str ''Swap price 95 exceeds maxPrice 50''))]\<rparr>,
      calls = [FetchRoute (Str ''TOKEN_B'') (Str ''TOKEN_A'')]\<rparr>"
proof -
  have 1: "parseFloat (Str ''50'') = Fin 50"
    by (simp add: parse_defs fl_simps)
  have 2: "ToNumber (Str ''95'') = Fin 95"
    by (simp add: parse_defs fl_simps)
  have 3: "num_to_string (Fin 50) = ''50''"
    by (simp add: tostring_defs fl_simps)
  show ?thesis
    using 1 2 3
    by (simp add: router_def handler_def buy_def new_Wallet_def getParamData_def
          optional_number_def Let_def sample_simps sample_fetch_route_def
          sample_buy_price_string js_le_def swapMoreThanMaxPriceError_def)
qed

lemma sample_balancer_rejected:
  "balancer_trade sample_env (sample_request True (Str ''1'')) =
     \<lparr>sent = None, calls = [GetSwaps (Str ''0xdai'') (Str ''0xweth'') (Fin 1000000000000000000)]\<rparr>"
proof -
  have "parseFloat (Str ''1'') = Fin 1"
    by (simp add: parse_defs fl_simps)
  then show ?thesis
    by (simp add: handler_defs sample_simps toBaseUnits_one sample_expectedOut
          fl_simps js_le_def)
qed

text \<open>A bound written after a no-break space is parsed and enforced: the buy below
  asks for at most 5 and is rejected at the price of 95.\<close>

lemma nbsp_bound_enforced:
  "\<not> executed (buy sample_env (sample_request True (Str [CHR 0xC2, CHR 0xA0, CHR ''5''])))"
proof -
  have 1: "ToNumber (Str ''95'') = Fin 95"
    by (simp add: parse_defs fl_simps)
  show ?thesis
    using 1 parseFloat_nbsp
    by (simp add: buy_def new_Wallet_def getParamData_def optional_number_def Let_def
          sample_simps sample_fetch_route_def sample_buy_price_string js_le_def executed_def)
qed

subsection \<open>C10: the certificate middleware\<close>

text \<open>
  C10: on the router that has the certificate middleware, every request whose client
  certificate is not authorized is answered by the middleware, with status 403 when the
  certificate has a subject and 401 when there is none; the outcome is the same for
  every endpoint and whatever the services would return, so no handler is entered, and
  no route query and no trade execution is made. (The server of \<open>index.js\<close> is
  created with \<open>rejectUnauthorized\<close>, so it refuses such a connection before any router
  sees a request; the theorem is what the middleware does with one.)
\<close>

theorem C10_unauthorized_rejected:
  assumes "\<not> client_authorized req"
  shows "router E ep req =
           \<lparr>sent = Some
              \<lparr>status = (if cert_subject req then 403 else 401),
               json = [(''error'',
                        JVal (Str (if cert_subject req then ssl_cert_invalid (statusMessages E)
                                   else ssl_cert_required (statusMessages E))))]\<rparr>,
            calls = []\<rparr>
         \<and> \<not> queried (router E ep req) \<and> \<not> executed (router E ep req)"
  using assms by (simp add: router_def observe_defs)

theorem C10_unauthorized_rejected_witness:
  "\<not> client_authorized (sample_request False (Str ''100''))
   \<and> router sample_env Sell (sample_request False (Str ''100'')) =
       \<lparr>sent = Some \<lparr>status = 401, json = [(''error'', JVal (Str ''ssl_cert_required''))]\<rparr>,
        calls = []\<rparr>
   \<and> \<not> queried (router sample_env Sell (sample_request False (Str ''100'')))
   \<and> \<not> executed (router sample_env Sell (sample_request False (Str ''100'')))
   \<and> \<not> client_authorized ((sample_request False (Str ''100''))\<lparr>cert_subject := True\<rparr>)
   \<and> router sample_env Buy ((sample_request False (Str ''100''))\<lparr>cert_subject := True\<rparr>) =
       \<lparr>sent = Some \<lparr>status = 403, json = [(''error'', JVal (Str ''ssl_cert_invalid''))]\<rparr>,
        calls = []\<rparr>"
proof -
  have h: "\<not> client_authorized (sample_request False (Str ''100''))"
    by (simp add: sample_simps)
  have h': "\<not> client_authorized ((sample_request False (Str ''100''))\<lparr>cert_subject := True\<rparr>)"
    by (simp add: sample_simps)
  show ?thesis
    using h h' C10_unauthorized_rejected [OF h, of sample_env Sell]
      C10_unauthorized_rejected [OF h', of sample_env Buy]
    by (simp add: sample_simps observe_defs)
qed

subsection \<open>C4: no route\<close>

text \<open>The quote handlers answer a missing route with the \<open>no_pool_available\<close> message
  and status 200.\<close>

lemma quote_no_route:
  "fetch_route E (base (body req)) (quote (body req)) = Inr None \<Longrightarrow>
   sell_price E req =
     \<lparr>sent = Some \<lparr>status = 200,
                     json = [(''error'', JVal (Str (no_pool_available (statusMessages E)))),
                             (''message'', JVal (Str []))]\<rparr>,
      calls = [FetchRoute (base (body req)) (quote (body req))]\<rparr>"
  "fetch_route E (quote (body req)) (base (body req)) = Inr None \<Longrightarrow>
   buy_price E req =
     \<lparr>sent = Some \<lparr>status = 200,
                     json = [(''error'', JVal (Str (no_pool_available (statusMessages E)))),
                             (''message'', JVal (Str []))]\<rparr>,
      calls = [FetchRoute (quote (body req)) (base (body req))]\<rparr>"
  by (simp_all add: handler_defs)

text \<open>
  C4 holds for the quote endpoints and fails for the trade endpoints: \<open>/sell\<close> and
  \<open>/buy\<close> read \<open>route.midPrice\<close> without the test for a missing route that the quote
  handlers make, so the TypeError lands in the \<open>catch\<close> block and the answer is the
  classified one, with status 500 and the \<open>operation_error\<close> message. No trade is
  executed.
\<close>

theorem C4_trade_no_route:
  "fetch_route no_route_env (Str ''TOKEN_A'') (Str ''TOKEN_B'') = Inr None
   \<and> router no_route_env Sell (sample_request True Undefined) =
       \<lparr>sent = Some \<lparr>status = 500,
                       json = [(''error'', JVal (Str ''operation_error'')),
                               (''message'', JErr TypeError)]\<rparr>,
        calls = [FetchRoute (Str ''TOKEN_A'') (Str ''TOKEN_B'')]\<rparr>
   \<and> router no_route_env Buy (sample_request True Undefined) =
       \<lparr>sent = Some \<lparr>status = 500,
                       json = [(''error'', JVal (Str ''operation_error'')),
                               (''message'', JErr TypeError)]\<rparr>,
        calls = [FetchRoute (Str ''TOKEN_B'') (Str ''TOKEN_A'')]\<rparr>"
  by (simp add: handler_defs no_route_env_def sample_simps TypeError_def)

subsection \<open>C6: the signing key\<close>

text \<open>On the Uniswap router the wallet handed to the trade executor is built from the
  \<open>privateKey\<close> of the request.\<close>

lemma uniswap_wallet_from_request:
  "SwapExactIn w r t a g \<in> set (calls (sell E req)) \<Longrightarrow> w = Wallet (privateKey (body req))"
  "SwapExactIn w r t a g \<in> set (calls (buy E req)) \<Longrightarrow> w = Wallet (privateKey (body req))"
  by (auto simp add: handler_defs split: if_splits sum.splits option.splits)

text \<open>
  C6 fails on the Balancer router: \<open>/trade\<close> builds the wallet from the key in the
  process environment (the source marks it as to be replaced by a parameter) and does
  not read a key from the request. The request below carries the key \<open>0x11\<dots>1\<close>; the
  trade is signed with \<open>0x22\<dots>2\<close>.
\<close>

theorem C6_balancer_wallet_from_environment:
  "privateKey (query (sample_request True Undefined)) = Str (''0x'' @ replicate 64 (CHR ''1''))
   \<and> calls (balancer_router sample_env Trade (sample_request True Undefined)) =
       [GetSwaps (Str ''0xdai'') (Str ''0xweth'') (Fin (10 ^ 18)),
        BatchSwapExactIn (Wallet (Str (''0x'' @ replicate 64 (CHR ''2''))))
          [Str ''pool''] (Str ''0xdai'') (Str ''0xweth'') ''1000000000000000000'']"
  by (simp add: handler_defs sample_simps toBaseUnits_one pos_to_string_1e18 sample_key_def)

subsection \<open>C3: the rejection response\<close>

text \<open>
  C3 fails on the Balancer router: when the guard of \<open>/trade\<close> rejects, the handler
  only logs and returns, so no response is sent (and no trade is executed). The request
  asks for at most 1 and the routed price is 2.
\<close>

theorem C3_balancer_rejection_unanswered:
  "balancer_router sample_env Trade (sample_request True (Str ''1'')) =
     \<lparr>sent = None, calls = [GetSwaps (Str ''0xdai'') (Str ''0xweth'') (Fin (10 ^ 18))]\<rparr>"
proof -
  have "parseFloat (Str ''1'') = Fin 1"
    by (simp add: parse_defs fl_simps)
  then show ?thesis
    by (simp add: handler_defs sample_simps toBaseUnits_one sample_expectedOut
          fl_simps js_le_def)
qed

subsection \<open>C7: classification of failures\<close>

text \<open>A service call that throws inside the \<open>try\<close> block of a handler ends in its
  \<open>catch\<close> block, and so does the reading of the price of a missing route.\<close>

lemma sell_failure:
  assumes "c \<in> set (calls (sell E req))" and "thrown E c = Some err"
  shows "sent (sell E req) = Some (catch_block E err)"
proof (cases "new_Wallet E (privateKey (body req))")
  case (Inl e)
  with assms show ?thesis by (simp add: sell_def getParamData_def Let_def)
next
  case (Inr w)
  show ?thesis
  proof (cases "fetch_route E (base (body req)) (quote (body req))")
    case (Inl e)
    with assms Inr show ?thesis by (auto simp add: sell_def getParamData_def Let_def)
  next
    case r: (Inr ro)
    show ?thesis
    proof (cases ro)
      case None
      with assms Inr r show ?thesis by (auto simp add: sell_def getParamData_def Let_def)
    next
      case (Some rt)
      with assms Inr r show ?thesis
        by (auto simp add: sell_def getParamData_def Let_def split: if_splits sum.splits)
    qed
  qed
qed

lemma buy_failure:
  assumes "c \<in> set (calls (buy E req))" and "thrown E c = Some err"
  shows "sent (buy E req) = Some (catch_block E err)"
proof (cases "new_Wallet E (privateKey (body req))")
  case (Inl e)
  with assms show ?thesis by (simp add: buy_def getParamData_def Let_def)
next
  case (Inr w)
  show ?thesis
  proof (cases "fetch_route E (quote (body req)) (base (body req))")
    case (Inl e)
    with assms Inr show ?thesis by (auto simp add: buy_def getParamData_def Let_def)
  next
    case r: (Inr ro)
    show ?thesis
    proof (cases ro)
      case None
      with assms Inr r show ?thesis by (auto simp add: buy_def getParamData_def Let_def)
    next
      case (Some rt)
      with assms Inr r show ?thesis
        by (auto simp add: buy_def getParamData_def Let_def split: if_splits sum.splits)
    qed
  qed
qed

lemma quote_failure:
  assumes "thrown E c = Some err"
  shows "c \<in> set (calls (sell_price E req)) \<Longrightarrow> sent (sell_price E req) = Some (catch_block E err)"
    and "c \<in> set (calls (buy_price E req)) \<Longrightarrow> sent (buy_price E req) = Some (catch_block E err)"
  using assms
  by (auto simp add: sell_price_def buy_price_def getParamData_def Let_def
        split: sum.splits option.splits)

lemma trade_no_route:
  "FetchRoute a b \<in> set (calls (sell E req)) \<Longrightarrow> fetch_route E a b = Inr None \<Longrightarrow>
   sent (sell E req) = Some (catch_block E TypeError)"
  "FetchRoute a b \<in> set (calls (buy E req)) \<Longrightarrow> fetch_route E a b = Inr None \<Longrightarrow>
   sent (buy E req) = Some (catch_block E TypeError)"
  by (auto simp add: sell_def buy_def getParamData_def Let_def
        split: sum.splits option.splits if_splits)

text \<open>
  C7, as stated for every failure raised inside a handler, fails: the trade handlers
  build the wallet before the \<open>try\<close> block, so a failure of the wallet constructor (here
  for a request without a private key) is not classified, and no response is sent.
\<close>

theorem C7_wallet_failure_unclassified:
  "new_Wallet sample_env (privateKey (body keyless_request))
     = Inl \<lparr>reason = Str ''invalid private key'', description = ''Error''\<rparr>
   \<and> router sample_env Sell keyless_request = \<lparr>sent = None, calls = []\<rparr>
   \<and> router sample_env Buy keyless_request = \<lparr>sent = None, calls = []\<rparr>"
  by (simp add: handler_defs keyless_request_def sample_simps sample_valid_key_def)

text \<open>
  C7 (amended): for every failure raised inside the \<open>try\<close> block of a Uniswap handler,
  that is thrown by the route query or by the trade executor, or raised by reading the
  price of a missing route in a trade handler, the response has status 500 and the
  body \<open>{error, message}\<close>, where \<open>error\<close> is the failure's \<open>reason\<close> when that is
  truthy and the \<open>operation_error\<close> message otherwise, and \<open>message\<close> is the failure.
\<close>

theorem C7_failures_classified:
  "(c \<in> set (calls (handler ep E req)) \<and> thrown E c = Some err \<longrightarrow>
      sent (handler ep E req) =
        Some \<lparr>status = 500,
              json = [(''error'', JVal (if truthy (reason err) then reason err
                                        else Str (operation_error (statusMessages E)))),
                      (''message'', JErr err)]\<rparr>)
   \<and> ((ep = Sell \<or> ep = Buy) \<and> FetchRoute a b \<in> set (calls (handler ep E req))
        \<and> fetch_route E a b = Inr None \<longrightarrow>
      sent (handler ep E req) =
        Some \<lparr>status = 500,
              json = [(''error'', JVal (Str (operation_error (statusMessages E)))),
                      (''message'', JErr TypeError)]\<rparr>)"
proof (intro conjI impI)
  assume a: "c \<in> set (calls (handler ep E req)) \<and> thrown E c = Some err"
  have "sent (handler ep E req) = Some (catch_block E err)"
  proof (cases ep)
    case Root
    with a show ?thesis by (simp add: handler_def root_def)
  next
    case SellPrice
    with a show ?thesis using quote_failure(1) [of E c err req] by (simp add: handler_def)
  next
    case BuyPrice
    with a show ?thesis using quote_failure(2) [of E c err req] by (simp add: handler_def)
  next
    case Sell
    with a show ?thesis using sell_failure [of c E req err] by (simp add: handler_def)
  next
    case Buy
    with a show ?thesis using buy_failure [of c E req err] by (simp add: handler_def)
  qed
  then show "sent (handler ep E req) =
        Some \<lparr>status = 500,
              json = [(''error'', JVal (if truthy (reason err) then reason err
                                        else Str (operation_error (statusMessages E)))),
                      (''message'', JErr err)]\<rparr>"
    by (simp add: catch_block_def Let_def)
next
  assume a: "(ep = Sell \<or> ep = Buy) \<and> FetchRoute a b \<in> set (calls (handler ep E req))
        \<and> fetch_route E a b = Inr None"
  then have "sent (handler ep E req) = Some (catch_block E TypeError)"
    using trade_no_route [of a b E req] by (auto simp add: handler_def)
  then show "sent (handler ep E req) =
        Some \<lparr>status = 500,
              json = [(''error'', JVal (Str (operation_error (statusMessages E)))),
                      (''message'', JErr TypeError)]\<rparr>"
    by (simp add: catch_block_def TypeError_def Let_def)
qed

theorem C7_failures_classified_witness:
  "FetchRoute (Str ''TOKEN_A'') (Str ''TOKEN_B'')
     \<in> set (calls (handler SellPrice offline_env (sample_request True Undefined)))
   \<and> thrown offline_env (FetchRoute (Str ''TOKEN_A'') (Str ''TOKEN_B'')) = Some network_error
   \<and> sent (handler SellPrice offline_env (sample_request True Undefined)) =
       Some \<lparr>status = 500,
             json = [(''error'', JVal (Str ''operation_error'')), (''message'', JErr network_error)]\<rparr>
   \<and> FetchRoute (Str ''TOKEN_A'') (Str ''TOKEN_B'')
       \<in> set (calls (handler Sell no_route_env (sample_request True Undefined)))
   \<and> fetch_route no_route_env (Str ''TOKEN_A'') (Str ''TOKEN_B'') = Inr None
   \<and> sent (handler Sell no_route_env (sample_request True Undefined)) =
       Some \<lparr>status = 500,
             json = [(''error'', JVal (Str ''operation_error'')), (''message'', JErr TypeError)]\<rparr>"
proof -
  have h1: "FetchRoute (Str ''TOKEN_A'') (Str ''TOKEN_B'')
              \<in> set (calls (handler SellPrice offline_env (sample_request True Undefined)))
            \<and> thrown offline_env (FetchRoute (Str ''TOKEN_A'') (Str ''TOKEN_B'')) = Some network_error"
    by (simp add: handler_defs offline_env_def sample_simps)
  have h2: "(Sell = Sell \<or> Sell = Buy)
            \<and> FetchRoute (Str ''TOKEN_A'') (Str ''TOKEN_B'')
                \<in> set (calls (handler Sell no_route_env (sample_request True Undefined)))
            \<and> fetch_route no_route_env (Str ''TOKEN_A'') (Str ''TOKEN_B'') = Inr None"
    by (simp add: handler_defs no_route_env_def sample_simps)
  note t1 = C7_failures_classified [of "FetchRoute (Str ''TOKEN_A'') (Str ''TOKEN_B'')" SellPrice
              offline_env "sample_request True Undefined" network_error, THEN conjunct1, rule_format, OF h1]
  note t2 = C7_failures_classified [of _ Sell no_route_env "sample_request True Undefined" _
              "Str ''TOKEN_A''" "Str ''TOKEN_B''", THEN conjunct2, rule_format, OF h2]
  show ?thesis
    using h1 h2 t1 t2
    by (simp add: network_error_def offline_env_def no_route_env_def sample_simps)
qed

text \<open>A revert of the trade is classified with its reason.\<close>

lemma revert_classified:
  "sent (router revert_env Sell (sample_request True Undefined)) =
     Some \<lparr>status = 500,
           json = [(''error'', JVal (Str ''transaction failed'')), (''message'', JErr revert_error)]\<rparr>"
  by (simp add: handler_defs revert_env_def revert_error_def sample_simps sample_fetch_route_def)

subsection \<open>C8: response metadata\<close>

text \<open>
  C8, as stated for every JSON response, fails: the error-shaped responses carry only
  \<open>error\<close> and \<open>message\<close>. Here a quote for a pair without a route.
\<close>

theorem C8_no_route_response_fields:
  "map_option fields (sent (router no_route_env SellPrice (sample_request True Undefined)))
     = Some [''error'', ''message'']"
  by (simp add: handler_defs observe_defs no_route_env_def sample_simps)

text \<open>
  C8 (amended): every response of a quote or trade endpoint that is not error-shaped
  (a quote or a completed trade), on either router, includes \<open>network\<close>, \<open>timestamp\<close>,
  equal to the clock reading at handler entry, and \<open>latency\<close>, computed from that reading
  and the one taken when the response is built; the latency is non-negative whenever the
  second reading is not before the first. The error-shaped responses (no route, guard
  rejection, classified failure, certificate rejection) carry \<open>error\<close> and \<open>message\<close>
  only.
\<close>

theorem C8_result_metadata:
  "(ep \<noteq> Root \<and> sent (router E ep req) = Some r \<and> field r ''error'' = None \<longrightarrow>
      field r ''network'' = Some (JVal (network E))
      \<and> field r ''timestamp'' = Some (JVal (Num (Fin (of_int (now_entry E)))))
      \<and> field r ''latency'' = Some (JVal (Num (latency (now_entry E) (now_format E)))))
   \<and> (sent (balancer_router E bep req) = Some r \<longrightarrow>
      field r ''network'' = Some (JVal (balancer_network E))
      \<and> field r ''timestamp'' = Some (JVal (Num (Fin (of_int (now_entry E)))))
      \<and> field r ''latency'' = Some (JVal (Num (latency (now_entry E) (now_format E)))))
   \<and> (now_entry E \<le> now_format E \<longrightarrow>
      num_le (Fin 0) (latency (now_entry E) (now_format E)))"
proof (intro conjI impI)
  assume a: "ep \<noteq> Root \<and> sent (router E ep req) = Some r \<and> field r ''error'' = None"
  then have r: "field r ''network'' = Some (JVal (network E))
      \<and> field r ''timestamp'' = Some (JVal (Num (Fin (of_int (now_entry E)))))
      \<and> field r ''latency'' = Some (JVal (Num (latency (now_entry E) (now_format E))))"
    by (cases ep)
       (auto simp add: handler_defs observe_defs split: if_splits sum.splits option.splits)
  from r show "field r ''network'' = Some (JVal (network E))" by simp
  from r show "field r ''timestamp'' = Some (JVal (Num (Fin (of_int (now_entry E)))))" by simp
  from r show "field r ''latency'' = Some (JVal (Num (latency (now_entry E) (now_format E))))"
    by simp
next
  assume a: "sent (balancer_router E bep req) = Some r"
  then have r: "field r ''network'' = Some (JVal (balancer_network E))
      \<and> field r ''timestamp'' = Some (JVal (Num (Fin (of_int (now_entry E)))))
      \<and> field r ''latency'' = Some (JVal (Num (latency (now_entry E) (now_format E))))"
    by (cases bep)
       (auto simp add: handler_defs observe_defs split: if_splits sum.splits option.splits prod.splits)
  from r show "field r ''network'' = Some (JVal (balancer_network E))" by simp
  from r show "field r ''timestamp'' = Some (JVal (Num (Fin (of_int (now_entry E)))))" by simp
  from r show "field r ''latency'' = Some (JVal (Num (latency (now_entry E) (now_format E))))"
    by simp
next
  assume "now_entry E \<le> now_format E"
  then show "num_le (Fin 0) (latency (now_entry E) (now_format E))"
    by (simp add: latency_def)
qed

theorem C8_result_metadata_witness:
  "SellPrice \<noteq> Root
   \<and> sent (router sample_env SellPrice (sample_request True Undefined)) =
       Some \<lparr>status = 200,
             json = [(''network'', JVal (Str ''kovan'')),
                     (''timestamp'', JVal (Num (Fin 1000))),
                     (''latency'', JVal (Num (Fin 250))),
                     (''base'', JVal (Str ''TOKEN_A'')),
                     (''quote'', JVal (Str ''TOKEN_B'')),
                     (''amount'', JVal (Num (Fin 1))),
                     (''expectedOut'', JVal (Num (Fin 95))),
                     (''price'', JVal (Str ''95'')),
                     (''swaps'', JList [Str ''TOKEN_A'', Str ''TOKEN_B''])]\<rparr>
   \<and> sent (balancer_router sample_env Price (sample_request True Undefined)) =
       Some \<lparr>status = 200,
             json = [(''network'', JVal (Str ''kovan'')),
                     (''timestamp'', JVal (Num (Fin 1000))),
                     (''latency'', JVal (Num (Fin 250))),
                     (''tokenIn'', JVal (Str ''DAI'')),
                     (''tokenOut'', JVal (Str ''WETH'')),
                     (''amount'', JVal (Num (Fin 1))),
                     (''expectedOut'', JVal (Num (Fin (1 / 2)))),
                     (''price'', JVal (Num (Fin 2))),
                     (''swaps'', JList [Str ''pool''])]\<rparr>
   \<and> now_entry sample_env \<le> now_format sample_env
   \<and> latency (now_entry sample_env) (now_format sample_env) = Fin 250
   \<and> num_le (Fin 0) (Fin 250)"
proof -
  let ?r = "\<lparr>status = 200,
             json = [(''network'', JVal (Str ''kovan'')),
                     (''timestamp'', JVal (Num (Fin 1000))),
                     (''latency'', JVal (Num (Fin 250))),
                     (''base'', JVal (Str ''TOKEN_A'')),
                     (''quote'', JVal (Str ''TOKEN_B'')),
                     (''amount'', JVal (Num (Fin 1))),
                     (''expectedOut'', JVal (Num (Fin 95))),
                     (''price'', JVal (Str ''95'')),
                     (''swaps'', JList [Str ''TOKEN_A'', Str ''TOKEN_B''])]\<rparr>"
  have h1: "SellPrice \<noteq> Root
            \<and> sent (router sample_env SellPrice (sample_request True Undefined)) = Some ?r
            \<and> field ?r ''error'' = None"
    by (simp add: sample_quote field_def)
  have h3: "now_entry sample_env \<le> now_format sample_env"
    by (simp add: sample_simps)
  let ?r' = "\<lparr>status = 200,
             json = [(''network'', JVal (Str ''kovan'')),
                     (''timestamp'', JVal (Num (Fin 1000))),
                     (''latency'', JVal (Num (Fin 250))),
                     (''tokenIn'', JVal (Str ''DAI'')),
                     (''tokenOut'', JVal (Str ''WETH'')),
                     (''amount'', JVal (Num (Fin 1))),
                     (''expectedOut'', JVal (Num (Fin (1 / 2)))),
                     (''price'', JVal (Num (Fin 2))),
                     (''swaps'', JList [Str ''pool''])]\<rparr>"
  have h2: "sent (balancer_router sample_env Price (sample_request True Undefined)) = Some ?r'"
    by (simp add: sample_balancer_quote)
  note t = C8_result_metadata [of SellPrice sample_env "sample_request True Undefined" ?r]
  note t' = C8_result_metadata [of _ sample_env "sample_request True Undefined" ?r' Price]
  from t [THEN conjunct1, rule_format, OF h1] t' [THEN conjunct2, THEN conjunct1, rule_format, OF h2]
    t [THEN conjunct2, THEN conjunct2, rule_format, OF h3]
  show ?thesis
    using h1 h2 h3 by (simp add: latency_def sample_simps)
qed

subsection \<open>C1 and C9: the price guard\<close>

text \<open>
  The guard of each trade handler, when the wallet is built and a route is found: the
  trade executor is called exactly when the parsed bound is absent or falsy, or the
  price converted to a Number passes the comparison.
\<close>

lemma sell_executed_iff:
  assumes "valid_key E (privateKey (body req))"
    and "fetch_route E (base (body req)) (quote (body req)) = Inr (Some r)"
  shows "executed (sell E req) \<longleftrightarrow>
           \<not> truthy (maxPrice (body req))
           \<or> \<not> num_truthy (parseFloat (maxPrice (body req)))
           \<or> num_ge (ToNumber_str (toSignificant E (midPrice r) 8)) (parseFloat (maxPrice (body req)))"
  using assms
  by (simp add: sell_def new_Wallet_def getParamData_def optional_number_def Let_def
        executed_def js_ge_def split: sum.splits)

lemma buy_executed_iff:
  assumes "valid_key E (privateKey (body req))"
    and "fetch_route E (quote (body req)) (base (body req)) = Inr (Some r)"
  shows "executed (buy E req) \<longleftrightarrow>
           \<not> truthy (maxPrice (body req))
           \<or> \<not> num_truthy (parseFloat (maxPrice (body req)))
           \<or> num_le (ToNumber_str (toSignificant E (invert (midPrice r)) 8))
                (parseFloat (maxPrice (body req)))"
  using assms
  by (simp add: buy_def new_Wallet_def getParamData_def optional_number_def Let_def
        executed_def js_le_def split: sum.splits)

lemma balancer_trade_executed_iff:
  assumes "valid_key E (Str (''0x'' @ ToString (ETH_PRIVATE_KEY E)))"
    and "getSwaps E (erc20Tokens E (tokenIn (query req))) (erc20Tokens E (tokenOut (query req)))
           (toBaseUnits (amount (query req))) = Inr (swaps, expectedOut)"
  shows "executed (balancer_trade E req) \<longleftrightarrow>
           \<not> truthy (maxPrice (query req))
           \<or> \<not> num_truthy (parseFloat (maxPrice (query req)))
           \<or> num_le (num_div (toBaseUnits (amount (query req))) (ToNumber expectedOut))
                (parseFloat (maxPrice (query req)))"
  using assms
  by (simp add: balancer_trade_def new_Wallet_def optional_number_def Let_def
        executed_def js_le_def split: sum.splits)
text \<open>
  C1, as stated for every supplied bound, fails for a bound of 0: the buy below asks
  for a price of at most 0, the routed price is 95, and the trade is executed.
\<close>

theorem C1_zero_bound_counterexample:
  "maxPrice (body (sample_request True (Str ''0''))) = Str ''0''
   \<and> parseFloat (Str ''0'') = Fin 0
   \<and> map_option (\<lambda>r. field r ''price'') (sent (router sample_env Buy (sample_request True (Str ''0''))))
       = Some (Some (JVal (Str ''95'')))
   \<and> ToNumber (Str ''95'') = Fin 95
   \<and> \<not> num_le (Fin 95) (Fin 0)
   \<and> executed (router sample_env Buy (sample_request True (Str ''0'')))"
proof -
  have 1: "parseFloat (Str ''0'') = Fin 0"
    by (simp add: parse_defs fl_simps)
  have 2: "ToNumber (Str ''95'') = Fin 95"
    by (simp add: parse_defs fl_simps)
  show ?thesis
    using 1 2
    by (simp add: router_def handler_def buy_def new_Wallet_def getParamData_def
          optional_number_def trade_json_def Let_def observe_defs sample_simps
          sample_fetch_route_def sample_buy_price_string)
qed

text \<open>
  C1 (amended): for every trade request for which the wallet is built and a route is
  found, with observed price \<open>p\<close> (the price string converted to a Number; on the
  Balancer router the amount in base units divided by the expected output): when a bound
  is supplied and parses to a Number \<open>b\<close> other than zero and NaN, \<open>/sell\<close> calls the
  trade executor iff \<open>p \<ge> b\<close>, and \<open>/buy\<close> and the Balancer \<open>/trade\<close> iff \<open>p \<le> b\<close>;
  when no bound is supplied (the parameter is absent or empty) the executor is always
  called. Each handler is taken with its own route query and its own key.
\<close>

theorem C1_guard:
  "(valid_key E (privateKey (body req))
      \<and> fetch_route E (base (body req)) (quote (body req)) = Inr (Some rs) \<longrightarrow>
        (truthy (maxPrice (body req)) \<and> num_truthy (parseFloat (maxPrice (body req))) \<longrightarrow>
           (executed (sell E req) \<longleftrightarrow>
              num_ge (ToNumber (Str (toSignificant E (midPrice rs) 8)))
                (parseFloat (maxPrice (body req)))))
      \<and> (\<not> truthy (maxPrice (body req)) \<longrightarrow> executed (sell E req)))
   \<and> (valid_key E (privateKey (body req))
      \<and> fetch_route E (quote (body req)) (base (body req)) = Inr (Some rb) \<longrightarrow>
        (truthy (maxPrice (body req)) \<and> num_truthy (parseFloat (maxPrice (body req))) \<longrightarrow>
           (executed (buy E req) \<longleftrightarrow>
              num_le (ToNumber (Str (toSignificant E (invert (midPrice rb)) 8)))
                (parseFloat (maxPrice (body req)))))
      \<and> (\<not> truthy (maxPrice (body req)) \<longrightarrow> executed (buy E req)))
   \<and> (valid_key E (Str (''0x'' @ ToString (ETH_PRIVATE_KEY E)))
      \<and> getSwaps E (erc20Tokens E (tokenIn (query req))) (erc20Tokens E (tokenOut (query req)))
           (toBaseUnits (amount (query req))) = Inr (swaps, expectedOut) \<longrightarrow>
        (truthy (maxPrice (query req)) \<and> num_truthy (parseFloat (maxPrice (query req))) \<longrightarrow>
           (executed (balancer_trade E req) \<longleftrightarrow>
              num_le (num_div (toBaseUnits (amount (query req))) (ToNumber expectedOut))
                (parseFloat (maxPrice (query req)))))
      \<and> (\<not> truthy (maxPrice (query req)) \<longrightarrow> executed (balancer_trade E req)))"
proof (intro conjI impI)
  assume a: "valid_key E (privateKey (body req))
      \<and> fetch_route E (base (body req)) (quote (body req)) = Inr (Some rs)"
  note s = sell_executed_iff [OF conjunct1 [OF a] conjunct2 [OF a]]
  show "executed (sell E req) \<longleftrightarrow>
              num_ge (ToNumber (Str (toSignificant E (midPrice rs) 8)))
                (parseFloat (maxPrice (body req)))"
    if "truthy (maxPrice (body req)) \<and> num_truthy (parseFloat (maxPrice (body req)))"
    using that s by simp
  show "executed (sell E req)" if "\<not> truthy (maxPrice (body req))"
    using that s by simp
next
  assume a: "valid_key E (privateKey (body req))
      \<and> fetch_route E (quote (body req)) (base (body req)) = Inr (Some rb)"
  note s = buy_executed_iff [OF conjunct1 [OF a] conjunct2 [OF a]]
  show "executed (buy E req) \<longleftrightarrow>
              num_le (ToNumber (Str (toSignificant E (invert (midPrice rb)) 8)))
                (parseFloat (maxPrice (body req)))"
    if "truthy (maxPrice (body req)) \<and> num_truthy (parseFloat (maxPrice (body req)))"
    using that s by simp
  show "executed (buy E req)" if "\<not> truthy (maxPrice (body req))"
    using that s by simp
next
  assume a: "valid_key E (Str (''0x'' @ ToString (ETH_PRIVATE_KEY E)))
      \<and> getSwaps E (erc20Tokens E (tokenIn (query req))) (erc20Tokens E (tokenOut (query req)))
           (toBaseUnits (amount (query req))) = Inr (swaps, expectedOut)"
  note s = balancer_trade_executed_iff [OF conjunct1 [OF a] conjunct2 [OF a]]
  show "executed (balancer_trade E req) \<longleftrightarrow>
              num_le (num_div (toBaseUnits (amount (query req))) (ToNumber expectedOut))
                (parseFloat (maxPrice (query req)))"
    if "truthy (maxPrice (query req)) \<and> num_truthy (parseFloat (maxPrice (query req)))"
    using that s by simp
  show "executed (balancer_trade E req)" if "\<not> truthy (maxPrice (query req))"
    using that s by simp
qed

theorem C1_guard_witness:
  "valid_key sample_env (privateKey (body (sample_request True (Str ''100''))))
   \<and> fetch_route sample_env (Str ''TOKEN_A'') (Str ''TOKEN_B'') =
       Inr (Some \<lparr>midPrice = \<lparr>baseCurrency = Str ''TOKEN_A'', quoteCurrency = Str ''TOKEN_B'',
                                numerator = 95, denominator = 1\<rparr>,
                   path = [Str ''TOKEN_A'', Str ''TOKEN_B'']\<rparr>)
   \<and> fetch_route sample_env (Str ''TOKEN_B'') (Str ''TOKEN_A'') =
       Inr (Some \<lparr>midPrice = \<lparr>baseCurrency = Str ''TOKEN_B'', quoteCurrency = Str ''TOKEN_A'',
                                numerator = 1, denominator = 95\<rparr>,
                   path = [Str ''TOKEN_B'', Str ''TOKEN_A'']\<rparr>)
   \<and> valid_key sample_env (Str (''0x'' @ ToString (ETH_PRIVATE_KEY sample_env)))
   \<and> getSwaps sample_env (Str ''0xdai'') (Str ''0xweth'') (toBaseUnits (Str ''1''))
       = Inr ([Str ''pool''], Str ''500000000000000000'')
   \<and> truthy (Str ''100'') \<and> parseFloat (Str ''100'') = Fin 100
   \<and> \<not> executed (sell sample_env (sample_request True (Str ''100'')))
   \<and> executed (buy sample_env (sample_request True (Str ''100'')))
   \<and> executed (balancer_trade sample_env (sample_request True (Str ''100'')))
   \<and> \<not> truthy Undefined
   \<and> executed (sell sample_env (sample_request True Undefined))
   \<and> executed (buy sample_env (sample_request True Undefined))
   \<and> executed (balancer_trade sample_env (sample_request True Undefined))"
proof -
  let ?rs = "\<lparr>midPrice = \<lparr>baseCurrency = Str ''TOKEN_A'', quoteCurrency = Str ''TOKEN_B'',
                             numerator = 95, denominator = 1\<rparr>,
               path = [Str ''TOKEN_A'', Str ''TOKEN_B'']\<rparr>"
  let ?rb = "\<lparr>midPrice = \<lparr>baseCurrency = Str ''TOKEN_B'', quoteCurrency = Str ''TOKEN_A'',
                             numerator = 1, denominator = 95\<rparr>,
               path = [Str ''TOKEN_B'', Str ''TOKEN_A'']\<rparr>"
  have hs: "valid_key sample_env (privateKey (body (sample_request True mp)))
            \<and> fetch_route sample_env (base (body (sample_request True mp)))
                 (quote (body (sample_request True mp))) = Inr (Some ?rs)" for mp
    by (simp add: sample_simps sample_fetch_route_def)
  have hb: "valid_key sample_env (privateKey (body (sample_request True mp)))
            \<and> fetch_route sample_env (quote (body (sample_request True mp)))
                 (base (body (sample_request True mp))) = Inr (Some ?rb)" for mp
    by (simp add: sample_simps sample_fetch_route_def)
  have ht: "valid_key sample_env (Str (''0x'' @ ToString (ETH_PRIVATE_KEY sample_env)))
            \<and> getSwaps sample_env (erc20Tokens sample_env (tokenIn (query (sample_request True mp))))
                 (erc20Tokens sample_env (tokenOut (query (sample_request True mp))))
                 (toBaseUnits (amount (query (sample_request True mp))))
               = Inr ([Str ''pool''], Str ''500000000000000000'')" for mp
    by (simp add: sample_simps)
  have pf: "parseFloat (Str ''100'') = Fin 100"
    by (simp add: parse_defs fl_simps)
  have p95: "ToNumber_str ''95'' = Fin 95"
    by (simp add: parse_defs fl_simps)
  note t = C1_guard [where E = sample_env and rs = ?rs and rb = ?rb and swaps = "[Str ''pool'']"
             and expectedOut = "Str ''500000000000000000''"]
  note t1 = t [where req = "sample_request True (Str ''100'')"]
  note t2 = t [where req = "sample_request True Undefined"]
  note s1 = t1 [THEN conjunct1, rule_format, OF hs]
    and b1 = t1 [THEN conjunct2, THEN conjunct1, rule_format, OF hb]
    and c1 = t1 [THEN conjunct2, THEN conjunct2, rule_format, OF ht]
    and s2 = t2 [THEN conjunct1, rule_format, OF hs]
    and b2 = t2 [THEN conjunct2, THEN conjunct1, rule_format, OF hb]
    and c2 = t2 [THEN conjunct2, THEN conjunct2, rule_format, OF ht]
  show ?thesis
    using s1 b1 c1 s2 b2 c2 hs [of "Str ''100''"] hb [of "Str ''100''"] ht [of "Str ''100''"]
    by (simp add: sample_simps pf p95 sample_sell_price_string sample_buy_price_string
          toBaseUnits_one sample_expectedOut fl_simps num_ge_def)
qed

text \<open>
  C9: a \<open>maxPrice\<close> that parses to zero or to NaN is treated exactly as an absent one: each
  trade handler yields the same outcome as for the request without \<open>maxPrice\<close>, and,
  when the wallet is built and a route is found, calls the trade executor whatever the
  price.
\<close>

theorem C9_falsy_bound_ignored:
  assumes "parseFloat mp = Fin 0 \<or> parseFloat mp = NegZero \<or> parseFloat mp = NaN"
  shows "sell E (req\<lparr>body := (body req)\<lparr>maxPrice := mp\<rparr>\<rparr>)
           = sell E (req\<lparr>body := (body req)\<lparr>maxPrice := Undefined\<rparr>\<rparr>)
         \<and> buy E (req\<lparr>body := (body req)\<lparr>maxPrice := mp\<rparr>\<rparr>)
           = buy E (req\<lparr>body := (body req)\<lparr>maxPrice := Undefined\<rparr>\<rparr>)
         \<and> balancer_trade E (req\<lparr>query := (query req)\<lparr>maxPrice := mp\<rparr>\<rparr>)
           = balancer_trade E (req\<lparr>query := (query req)\<lparr>maxPrice := Undefined\<rparr>\<rparr>)
         \<and> (valid_key E (privateKey (body req))
              \<and> fetch_route E (base (body req)) (quote (body req)) = Inr (Some rs) \<longrightarrow>
            executed (sell E (req\<lparr>body := (body req)\<lparr>maxPrice := mp\<rparr>\<rparr>)))
         \<and> (valid_key E (privateKey (body req))
              \<and> fetch_route E (quote (body req)) (base (body req)) = Inr (Some rb) \<longrightarrow>
            executed (buy E (req\<lparr>body := (body req)\<lparr>maxPrice := mp\<rparr>\<rparr>)))
         \<and> (valid_key E (Str (''0x'' @ ToString (ETH_PRIVATE_KEY E)))
              \<and> getSwaps E (erc20Tokens E (tokenIn (query req))) (erc20Tokens E (tokenOut (query req)))
                   (toBaseUnits (amount (query req))) = Inr (swaps, expectedOut) \<longrightarrow>
            executed (balancer_trade E (req\<lparr>query := (query req)\<lparr>maxPrice := mp\<rparr>\<rparr>)))"
proof -
  from assms have f: "\<not> num_truthy (parseFloat mp)" by auto
  have o: "\<not> truthy (optional_number mp)" "\<not> truthy (optional_number Undefined)"
    using f by (simp_all add: optional_number_def)
  have 1: "sell E (req\<lparr>body := (body req)\<lparr>maxPrice := mp\<rparr>\<rparr>)
           = sell E (req\<lparr>body := (body req)\<lparr>maxPrice := Undefined\<rparr>\<rparr>)"
    using o by (simp add: sell_def getParamData_def trade_json_def Let_def split: sum.splits option.splits)
  have 2: "buy E (req\<lparr>body := (body req)\<lparr>maxPrice := mp\<rparr>\<rparr>)
           = buy E (req\<lparr>body := (body req)\<lparr>maxPrice := Undefined\<rparr>\<rparr>)"
    using o by (simp add: buy_def getParamData_def trade_json_def Let_def split: sum.splits option.splits)
  have 3: "balancer_trade E (req\<lparr>query := (query req)\<lparr>maxPrice := mp\<rparr>\<rparr>)
           = balancer_trade E (req\<lparr>query := (query req)\<lparr>maxPrice := Undefined\<rparr>\<rparr>)"
    using o by (simp add: balancer_trade_def Let_def split: sum.splits option.splits prod.splits)
  have 4: "executed (sell E (req\<lparr>body := (body req)\<lparr>maxPrice := mp\<rparr>\<rparr>))"
    if "valid_key E (privateKey (body req))
        \<and> fetch_route E (base (body req)) (quote (body req)) = Inr (Some rs)"
    using that f
      sell_executed_iff [of E "req\<lparr>body := (body req)\<lparr>maxPrice := mp\<rparr>\<rparr>" rs]
    by simp
  have 5: "executed (buy E (req\<lparr>body := (body req)\<lparr>maxPrice := mp\<rparr>\<rparr>))"
    if "valid_key E (privateKey (body req))
        \<and> fetch_route E (quote (body req)) (base (body req)) = Inr (Some rb)"
    using that f
      buy_executed_iff [of E "req\<lparr>body := (body req)\<lparr>maxPrice := mp\<rparr>\<rparr>" rb]
    by simp
  have 6: "executed (balancer_trade E (req\<lparr>query := (query req)\<lparr>maxPrice := mp\<rparr>\<rparr>))"
    if "valid_key E (Str (''0x'' @ ToString (ETH_PRIVATE_KEY E)))
        \<and> getSwaps E (erc20Tokens E (tokenIn (query req))) (erc20Tokens E (tokenOut (query req)))
             (toBaseUnits (amount (query req))) = Inr (swaps, expectedOut)"
    using that f
      balancer_trade_executed_iff [of E "req\<lparr>query := (query req)\<lparr>maxPrice := mp\<rparr>\<rparr>"
        swaps expectedOut]
    by simp
  from 1 2 3 4 5 6 show ?thesis by blast
qed

theorem C9_falsy_bound_ignored_witness:
  "parseFloat (Str ''0'') = Fin 0
   \<and> parseFloat (Str ''abc'') = NaN
   \<and> sell sample_env ((sample_request True Undefined)
        \<lparr>body := (body (sample_request True Undefined))\<lparr>maxPrice := Str ''0''\<rparr>\<rparr>)
       = sell sample_env ((sample_request True Undefined)
        \<lparr>body := (body (sample_request True Undefined))\<lparr>maxPrice := Undefined\<rparr>\<rparr>)
   \<and> executed (sell sample_env ((sample_request True Undefined)
        \<lparr>body := (body (sample_request True Undefined))\<lparr>maxPrice := Str ''0''\<rparr>\<rparr>))
   \<and> executed (buy sample_env ((sample_request True Undefined)
        \<lparr>body := (body (sample_request True Undefined))\<lparr>maxPrice := Str ''abc''\<rparr>\<rparr>))
   \<and> executed (balancer_trade sample_env ((sample_request True Undefined)
        \<lparr>query := (query (sample_request True Undefined))\<lparr>maxPrice := Str ''abc''\<rparr>\<rparr>))"
proof -
  let ?req = "sample_request True Undefined"
  let ?rs = "\<lparr>midPrice = \<lparr>baseCurrency = Str ''TOKEN_A'', quoteCurrency = Str ''TOKEN_B'',
                             numerator = 95, denominator = 1\<rparr>,
               path = [Str ''TOKEN_A'', Str ''TOKEN_B'']\<rparr>"
  let ?rb = "\<lparr>midPrice = \<lparr>baseCurrency = Str ''TOKEN_B'', quoteCurrency = Str ''TOKEN_A'',
                             numerator = 1, denominator = 95\<rparr>,
               path = [Str ''TOKEN_B'', Str ''TOKEN_A'']\<rparr>"
  have z: "parseFloat (Str ''0'') = Fin 0"
    by (simp add: parse_defs fl_simps)
  have n: "parseFloat (Str ''abc'') = NaN"
    by (simp add: parse_defs)
  have hs: "valid_key sample_env (privateKey (body ?req))
            \<and> fetch_route sample_env (base (body ?req)) (quote (body ?req)) = Inr (Some ?rs)"
    by (simp add: sample_simps sample_fetch_route_def)
  have hb: "valid_key sample_env (privateKey (body ?req))
            \<and> fetch_route sample_env (quote (body ?req)) (base (body ?req)) = Inr (Some ?rb)"
    by (simp add: sample_simps sample_fetch_route_def)
  have ht: "valid_key sample_env (Str (''0x'' @ ToString (ETH_PRIVATE_KEY sample_env)))
            \<and> getSwaps sample_env (erc20Tokens sample_env (tokenIn (query ?req)))
                 (erc20Tokens sample_env (tokenOut (query ?req)))
                 (toBaseUnits (amount (query ?req)))
               = Inr ([Str ''pool''], Str ''500000000000000000'')"
    by (simp add: sample_simps)
  note t0 = C9_falsy_bound_ignored [where mp = "Str ''0''" and E = sample_env and req = ?req
              and rs = ?rs, OF disjI1 [OF z]]
  note ta = C9_falsy_bound_ignored [where mp = "Str ''abc''" and E = sample_env and req = ?req
              and rb = ?rb and swaps = "[Str ''pool'']" and expectedOut = "Str ''500000000000000000''",
              OF disjI2 [OF disjI2 [OF n]]]
  from t0 have 1: "sell sample_env (?req\<lparr>body := (body ?req)\<lparr>maxPrice := Str ''0''\<rparr>\<rparr>)
                   = sell sample_env (?req\<lparr>body := (body ?req)\<lparr>maxPrice := Undefined\<rparr>\<rparr>)"
    by blast
  from t0 hs have 2: "executed (sell sample_env (?req\<lparr>body := (body ?req)\<lparr>maxPrice := Str ''0''\<rparr>\<rparr>))"
    by blast
  from ta hb have 3: "executed (buy sample_env (?req\<lparr>body := (body ?req)\<lparr>maxPrice := Str ''abc''\<rparr>\<rparr>))"
    by blast
  from ta ht have 4: "executed (balancer_trade sample_env
                        (?req\<lparr>query := (query ?req)\<lparr>maxPrice := Str ''abc''\<rparr>\<rparr>))"
    by blast
  from z n 1 2 3 4 show ?thesis by blast
qed

subsection \<open>C5: direction of the quoted price\<close>

text \<open>
  C5: every route query of \<open>/buy-price\<close> and \<open>/buy\<close> is from the quote token to the
  base token, and the price that they compare and display is the inverted mid price of
  that route. When the route is priced in units of its output token per unit of its
  input token (its mid price has the input token as base currency), the inverted price
  has the request's base token as base currency and its quote token as quote currency:
  it is in quote units per base unit. With \<open>p\<close> the inverted price in 8 significant
  digits: the quote shows \<open>p\<close> as \<open>price\<close> and the amount times \<open>p\<close> as
  \<open>expectedIn\<close>; the guard of \<open>/buy\<close> compares \<open>p\<close> with the bound; a completed buy
  shows \<open>p\<close> and the amount times \<open>p\<close>, and a rejected one prints \<open>p\<close> in its
  message; and no outcome of the two handlers depends on what the formatter would print
  for any other price, the price before inversion included. On the Balancer router,
  where a request spends \<open>tokenIn\<close> to buy \<open>tokenOut\<close>, every route query of \<open>/price\<close>
  and \<open>/trade\<close> is from \<open>tokenIn\<close> to \<open>tokenOut\<close>, and the price shown by both and
  compared by the guard of \<open>/trade\<close> is the amount spent divided by the expected
  output, the inverse of the output per unit of input; a rejected trade shows no price.
\<close>

theorem C5_buy_price_inverted:
  "(\<forall>c \<in> set (calls (buy_price E req) @ calls (buy E req)).
       is_route_query c \<longrightarrow> c = FetchRoute (quote (body req)) (base (body req)))
   \<and> (fetch_route E (quote (body req)) (base (body req)) = Inr (Some r) \<longrightarrow>
        (let p = toSignificant E (invert (midPrice r)) 8;
             bound = optional_number (maxPrice (body req));
             expectedIn = parseFloat (Num (num_mul (ToNumber (amount (body req))) (ToNumber (Str p))))
         in (baseCurrency (midPrice r) = quote (body req)
               \<and> quoteCurrency (midPrice r) = base (body req) \<longrightarrow>
             baseCurrency (invert (midPrice r)) = base (body req)
               \<and> quoteCurrency (invert (midPrice r)) = quote (body req))
          \<and> numerator (invert (midPrice r)) = denominator (midPrice r)
          \<and> denominator (invert (midPrice r)) = numerator (midPrice r)
          \<and> (\<exists>x. sent (buy_price E req) = Some x
                \<and> field x ''price'' = Some (JVal (Str p))
                \<and> field x ''expectedIn'' = Some (JVal (Num expectedIn)))
          \<and> (\<forall>f. f (invert (midPrice r)) 8 = p \<longrightarrow>
                buy_price (E\<lparr>toSignificant := f\<rparr>) req = buy_price E req
                \<and> buy (E\<lparr>toSignificant := f\<rparr>) req = buy E req)
          \<and> (valid_key E (privateKey (body req)) \<longrightarrow>
                (executed (buy E req) \<longleftrightarrow> \<not> truthy bound \<or> js_le (Str p) bound)
              \<and> (\<forall>x. sent (buy E req) = Some x \<and> field x ''error'' = None \<longrightarrow>
                    field x ''price'' = Some (JVal (Str p))
                    \<and> field x ''expectedIn'' = Some (JVal (Num expectedIn)))
              \<and> (\<not> executed (buy E req) \<longrightarrow>
                    sent (buy E req) =
                      Some \<lparr>status = 200,
                            json = [(''error'', JVal (Str swapMoreThanMaxPriceError)),
                                    (''message'',
                                       JVal (Str (''Swap price '' @ p @ '' exceeds maxPrice ''
                                                  @ ToString bound)))]\<rparr>))))
   \<and> (\<forall>c \<in> set (calls (balancer_price E req) @ calls (balancer_trade E req)).
         is_route_query c \<longrightarrow>
         c = GetSwaps (erc20Tokens E (tokenIn (query req))) (erc20Tokens E (tokenOut (query req)))
               (toBaseUnits (amount (query req))))
   \<and> (getSwaps E (erc20Tokens E (tokenIn (query req))) (erc20Tokens E (tokenOut (query req)))
         (toBaseUnits (amount (query req))) = Inr (swaps, expectedOut) \<longrightarrow>
        (let q = num_div (toBaseUnits (amount (query req))) (ToNumber expectedOut);
             bound = optional_number (maxPrice (query req))
         in (\<exists>x. sent (balancer_price E req) = Some x \<and> field x ''price'' = Some (JVal (Num q)))
          \<and> (valid_key E (Str (''0x'' @ ToString (ETH_PRIVATE_KEY E))) \<longrightarrow>
                (executed (balancer_trade E req) \<longleftrightarrow> \<not> truthy bound \<or> js_le (Num q) bound)
              \<and> (\<forall>x. sent (balancer_trade E req) = Some x \<longrightarrow>
                    field x ''price'' = Some (JVal (Num q)))
              \<and> (\<not> executed (balancer_trade E req) \<longrightarrow> sent (balancer_trade E req) = None))
          \<and> (\<forall>a b. toBaseUnits (amount (query req)) = Fin a \<and> ToNumber expectedOut = Fin b
                  \<and> a \<noteq> 0 \<and> b \<noteq> 0 \<longrightarrow>
                q = fl (inverse (b / a)))))"
proof (intro conjI impI)
  show "\<forall>c \<in> set (calls (buy_price E req) @ calls (buy E req)).
       is_route_query c \<longrightarrow> c = FetchRoute (quote (body req)) (base (body req))"
    by (auto simp add: buy_price_def buy_def getParamData_def Let_def
          split: sum.splits option.splits if_splits)
next
  show "\<forall>c \<in> set (calls (balancer_price E req) @ calls (balancer_trade E req)).
         is_route_query c \<longrightarrow>
         c = GetSwaps (erc20Tokens E (tokenIn (query req))) (erc20Tokens E (tokenOut (query req)))
               (toBaseUnits (amount (query req)))"
    by (auto simp add: balancer_price_def balancer_trade_def Let_def
          split: sum.splits option.splits if_splits prod.splits)
next
  assume a: "fetch_route E (quote (body req)) (base (body req)) = Inr (Some r)"
  define p where "p = toSignificant E (invert (midPrice r)) 8"
  define bound where "bound = optional_number (maxPrice (body req))"
  define expectedIn where
    "expectedIn = parseFloat (Num (num_mul (ToNumber (amount (body req))) (ToNumber (Str p))))"
  have 1: "baseCurrency (invert (midPrice r)) = base (body req)
               \<and> quoteCurrency (invert (midPrice r)) = quote (body req)"
    if "baseCurrency (midPrice r) = quote (body req)
               \<and> quoteCurrency (midPrice r) = base (body req)"
    using that by (simp add: invert_def)
  have 2: "numerator (invert (midPrice r)) = denominator (midPrice r)"
    "denominator (invert (midPrice r)) = numerator (midPrice r)"
    by (simp_all add: invert_def)
  have 3: "\<exists>x. sent (buy_price E req) = Some x
                \<and> field x ''price'' = Some (JVal (Str p))
                \<and> field x ''expectedIn'' = Some (JVal (Num expectedIn))"
    using a
    by (simp add: buy_price_def getParamData_def quote_json_def field_def Let_def p_def
          expectedIn_def)
  have 4: "buy_price (E\<lparr>toSignificant := f\<rparr>) req = buy_price E req
                \<and> buy (E\<lparr>toSignificant := f\<rparr>) req = buy E req"
    if "f (invert (midPrice r)) 8 = p" for f
    using a that
    by (simp add: buy_price_def buy_def getParamData_def quote_json_def trade_json_def
          catch_block_def new_Wallet_def Let_def p_def split: sum.splits)
  have 5: "executed (buy E req) \<longleftrightarrow> \<not> truthy bound \<or> js_le (Str p) bound"
    if "valid_key E (privateKey (body req))"
    using a that
    by (simp add: buy_def new_Wallet_def getParamData_def Let_def executed_def p_def bound_def
          split: sum.splits)
  have 6: "\<forall>x. sent (buy E req) = Some x \<and> field x ''error'' = None \<longrightarrow>
                    field x ''price'' = Some (JVal (Str p))
                    \<and> field x ''expectedIn'' = Some (JVal (Num expectedIn))"
    if "valid_key E (privateKey (body req))"
    using a that
    by (auto simp add: buy_def new_Wallet_def getParamData_def Let_def trade_json_def field_def
          catch_block_def p_def expectedIn_def split: sum.splits if_splits)
  have 7: "sent (buy E req) =
                      Some \<lparr>status = 200,
                            json = [(''error'', JVal (Str swapMoreThanMaxPriceError)),
                                    (''message'',
                                       JVal (Str (''Swap price '' @ p @ '' exceeds maxPrice ''
                                                  @ ToString bound)))]\<rparr>"
    if "valid_key E (privateKey (body req))" and "\<not> executed (buy E req)"
    using a that
    by (auto simp add: buy_def new_Wallet_def getParamData_def Let_def executed_def p_def
          bound_def split: sum.splits if_splits)
  show "let p = toSignificant E (invert (midPrice r)) 8;
             bound = optional_number (maxPrice (body req));
             expectedIn = parseFloat (Num (num_mul (ToNumber (amount (body req))) (ToNumber (Str p))))
         in (baseCurrency (midPrice r) = quote (body req)
               \<and> quoteCurrency (midPrice r) = base (body req) \<longrightarrow>
             baseCurrency (invert (midPrice r)) = base (body req)
               \<and> quoteCurrency (invert (midPrice r)) = quote (body req))
          \<and> numerator (invert (midPrice r)) = denominator (midPrice r)
          \<and> denominator (invert (midPrice r)) = numerator (midPrice r)
          \<and> (\<exists>x. sent (buy_price E req) = Some x
                \<and> field x ''price'' = Some (JVal (Str p))
                \<and> field x ''expectedIn'' = Some (JVal (Num expectedIn)))
          \<and> (\<forall>f. f (invert (midPrice r)) 8 = p \<longrightarrow>
                buy_price (E\<lparr>toSignificant := f\<rparr>) req = buy_price E req
                \<and> buy (E\<lparr>toSignificant := f\<rparr>) req = buy E req)
          \<and> (valid_key E (privateKey (body req)) \<longrightarrow>
                (executed (buy E req) \<longleftrightarrow> \<not> truthy bound \<or> js_le (Str p) bound)
              \<and> (\<forall>x. sent (buy E req) = Some x \<and> field x ''error'' = None \<longrightarrow>
                    field x ''price'' = Some (JVal (Str p))
                    \<and> field x ''expectedIn'' = Some (JVal (Num expectedIn)))
              \<and> (\<not> executed (buy E req) \<longrightarrow>
                    sent (buy E req) =
                      Some \<lparr>status = 200,
                            json = [(''error'', JVal (Str swapMoreThanMaxPriceError)),
                                    (''message'',
                                       JVal (Str (''Swap price '' @ p @ '' exceeds maxPrice ''
                                                  @ ToString bound)))]\<rparr>))"
    unfolding Let_def p_def [symmetric] bound_def [symmetric] expectedIn_def [symmetric]
    using 1 2 3 4 5 6 7 by blast
next
  assume b: "getSwaps E (erc20Tokens E (tokenIn (query req))) (erc20Tokens E (tokenOut (query req)))
         (toBaseUnits (amount (query req))) = Inr (swaps, expectedOut)"
  define q where "q = num_div (toBaseUnits (amount (query req))) (ToNumber expectedOut)"
  define bound where "bound = optional_number (maxPrice (query req))"
  have 1: "\<exists>x. sent (balancer_price E req) = Some x \<and> field x ''price'' = Some (JVal (Num q))"
    using b by (simp add: balancer_price_def field_def Let_def q_def)
  have 2: "executed (balancer_trade E req) \<longleftrightarrow> \<not> truthy bound \<or> js_le (Num q) bound"
    if "valid_key E (Str (''0x'' @ ToString (ETH_PRIVATE_KEY E)))"
    using b that
    by (simp add: balancer_trade_def new_Wallet_def Let_def executed_def q_def bound_def
          split: sum.splits)
  have 3: "\<forall>x. sent (balancer_trade E req) = Some x \<longrightarrow> field x ''price'' = Some (JVal (Num q))"
    if "valid_key E (Str (''0x'' @ ToString (ETH_PRIVATE_KEY E)))"
    using b that
    by (auto simp add: balancer_trade_def new_Wallet_def Let_def field_def q_def
          split: sum.splits if_splits)
  have 4: "sent (balancer_trade E req) = None"
    if "valid_key E (Str (''0x'' @ ToString (ETH_PRIVATE_KEY E)))"
      and "\<not> executed (balancer_trade E req)"
    using b that
    by (auto simp add: balancer_trade_def new_Wallet_def Let_def executed_def
          split: sum.splits if_splits)
  have 5: "q = fl (inverse (b / a))"
    if "toBaseUnits (amount (query req)) = Fin a \<and> ToNumber expectedOut = Fin b
                  \<and> a \<noteq> 0 \<and> b \<noteq> 0" for a b
    using that by (simp add: q_def)
  show "let q = num_div (toBaseUnits (amount (query req))) (ToNumber expectedOut);
             bound = optional_number (maxPrice (query req))
         in (\<exists>x. sent (balancer_price E req) = Some x \<and> field x ''price'' = Some (JVal (Num q)))
          \<and> (valid_key E (Str (''0x'' @ ToString (ETH_PRIVATE_KEY E))) \<longrightarrow>
                (executed (balancer_trade E req) \<longleftrightarrow> \<not> truthy bound \<or> js_le (Num q) bound)
              \<and> (\<forall>x. sent (balancer_trade E req) = Some x \<longrightarrow>
                    field x ''price'' = Some (JVal (Num q)))
              \<and> (\<not> executed (balancer_trade E req) \<longrightarrow> sent (balancer_trade E req) = None))
          \<and> (\<forall>a b. toBaseUnits (amount (query req)) = Fin a \<and> ToNumber expectedOut = Fin b
                  \<and> a \<noteq> 0 \<and> b \<noteq> 0 \<longrightarrow>
                q = fl (inverse (b / a)))"
    unfolding Let_def q_def [symmetric] bound_def [symmetric]
    using 1 2 3 4 5 by blast
qed

theorem C5_buy_price_inverted_witness:
  "FetchRoute (Str ''TOKEN_B'') (Str ''TOKEN_A'')
     \<in> set (calls (buy_price sample_env (sample_request True Undefined))
            @ calls (buy sample_env (sample_request True Undefined)))
   \<and> is_route_query (FetchRoute (Str ''TOKEN_B'') (Str ''TOKEN_A''))
   \<and> fetch_route sample_env (Str ''TOKEN_B'') (Str ''TOKEN_A'') =
       Inr (Some \<lparr>midPrice = \<lparr>baseCurrency = Str ''TOKEN_B'', quoteCurrency = Str ''TOKEN_A'',
                                numerator = 1, denominator = 95\<rparr>,
                   path = [Str ''TOKEN_B'', Str ''TOKEN_A'']\<rparr>)
   \<and> invert \<lparr>baseCurrency = Str ''TOKEN_B'', quoteCurrency = Str ''TOKEN_A'',
              numerator = 1, denominator = 95\<rparr>
       = \<lparr>baseCurrency = Str ''TOKEN_A'', quoteCurrency = Str ''TOKEN_B'',
          numerator = 95, denominator = 1\<rparr>
   \<and> toSignificant sample_env
         (invert \<lparr>baseCurrency = Str ''TOKEN_B'', quoteCurrency = Str ''TOKEN_A'',
                  numerator = 1, denominator = 95\<rparr>) 8 = ''95''
   \<and> map_option (\<lambda>x. (field x ''price'', field x ''expectedIn''))
         (sent (buy_price sample_env (sample_request True Undefined)))
       = Some (Some (JVal (Str ''95'')), Some (JVal (Num (Fin 95))))
   \<and> buy_price (sample_env\<lparr>toSignificant := \<lambda>p n. ''95''\<rparr>) (sample_request True Undefined)
       = buy_price sample_env (sample_request True Undefined)
   \<and> buy (sample_env\<lparr>toSignificant := \<lambda>p n. ''95''\<rparr>) (sample_request True Undefined)
       = buy sample_env (sample_request True Undefined)
   \<and> valid_key sample_env (privateKey (body (sample_request True Undefined)))
   \<and> executed (buy sample_env (sample_request True Undefined))
   \<and> map_option (\<lambda>x. (field x ''error'', field x ''price'', field x ''expectedIn''))
         (sent (buy sample_env (sample_request True Undefined)))
       = Some (None, Some (JVal (Str ''95'')), Some (JVal (Num (Fin 95))))
   \<and> \<not> executed (buy sample_env (sample_request True (Str ''50'')))
   \<and> sent (buy sample_env (sample_request True (Str ''50''))) =
       Some \<lparr>status = 200,
             json = [(''error'', JVal (Str ''Swap price exceeds maxPrice'')),
                     (''message'', JVal (Str ''Swap price 95 exceeds maxPrice 50''))]\<rparr>
   \<and> GetSwaps (Str ''0xdai'') (Str ''0xweth'') (Fin 1000000000000000000)
       \<in> set (calls (balancer_price sample_env (sample_request True Undefined))
              @ calls (balancer_trade sample_env (sample_request True Undefined)))
   \<and> is_route_query (GetSwaps (Str ''0xdai'') (Str ''0xweth'') (Fin 1000000000000000000))
   \<and> getSwaps sample_env (Str ''0xdai'') (Str ''0xweth'') (Fin 1000000000000000000)
       = Inr ([Str ''pool''], Str ''500000000000000000'')
   \<and> map_option (\<lambda>x. field x ''price'')
         (sent (balancer_price sample_env (sample_request True Undefined)))
       = Some (Some (JVal (Num (Fin 2))))
   \<and> valid_key sample_env (Str (''0x'' @ ToString (ETH_PRIVATE_KEY sample_env)))
   \<and> executed (balancer_trade sample_env (sample_request True Undefined))
   \<and> map_option (\<lambda>x. field x ''price'')
         (sent (balancer_trade sample_env (sample_request True Undefined)))
       = Some (Some (JVal (Num (Fin 2))))
   \<and> \<not> executed (balancer_trade sample_env (sample_request True (Str ''1'')))
   \<and> sent (balancer_trade sample_env (sample_request True (Str ''1''))) = None
   \<and> toBaseUnits (Str ''1'') = Fin 1000000000000000000
   \<and> ToNumber (Str ''500000000000000000'') = Fin 500000000000000000
   \<and> num_div (Fin 1000000000000000000) (Fin 500000000000000000)
       = fl (inverse (500000000000000000 / 1000000000000000000))
   \<and> fl (inverse (500000000000000000 / 1000000000000000000)) = Fin 2"
proof -
  let ?req = "sample_request True Undefined"
  let ?rej = "sample_request True (Str ''50'')"
  let ?rej' = "sample_request True (Str ''1'')"
  let ?rb = "\<lparr>midPrice = \<lparr>baseCurrency = Str ''TOKEN_B'', quoteCurrency = Str ''TOKEN_A'',
                             numerator = 1, denominator = 95\<rparr>,
               path = [Str ''TOKEN_B'', Str ''TOKEN_A'']\<rparr>"
  have h1: "fetch_route sample_env (quote (body (sample_request True mp)))
              (base (body (sample_request True mp))) = Inr (Some ?rb)" for mp
    by (simp add: sample_simps sample_fetch_route_def)
  have h2: "baseCurrency (midPrice ?rb) = quote (body ?req)
            \<and> quoteCurrency (midPrice ?rb) = base (body ?req)"
    by (simp add: sample_simps)
  have k: "valid_key sample_env (privateKey (body (sample_request True mp)))" for mp
    by (simp add: sample_simps)
  have h3: "getSwaps sample_env (erc20Tokens sample_env (tokenIn (query (sample_request True mp))))
              (erc20Tokens sample_env (tokenOut (query (sample_request True mp))))
              (toBaseUnits (amount (query (sample_request True mp))))
            = Inr ([Str ''pool''], Str ''500000000000000000'')" for mp
    by (simp add: sample_simps)
  have k': "valid_key sample_env (Str (''0x'' @ ToString (ETH_PRIVATE_KEY sample_env)))"
    by (simp add: sample_simps)
  have p: "toSignificant sample_env (invert (midPrice ?rb)) 8 = ''95''"
    by (simp add: sample_simps sample_buy_price_string)
  have f: "(\<lambda>p n. ''95'') (invert (midPrice ?rb)) 8 = toSignificant sample_env (invert (midPrice ?rb)) 8"
    using p by simp
  have m1: "FetchRoute (Str ''TOKEN_B'') (Str ''TOKEN_A'')
              \<in> set (calls (buy_price sample_env ?req) @ calls (buy sample_env ?req))"
    by (simp add: sample_buy_quote)
  have m2: "GetSwaps (Str ''0xdai'') (Str ''0xweth'') (Fin 1000000000000000000)
              \<in> set (calls (balancer_price sample_env ?req) @ calls (balancer_trade sample_env ?req))"
    using sample_balancer_quote by (simp add: balancer_router_def)
  have n1: "\<not> executed (buy sample_env ?rej)"
    by (simp add: sample_buy_rejected executed_def)
  have n2: "\<not> executed (balancer_trade sample_env ?rej')"
    by (simp add: sample_balancer_rejected executed_def)
  have e1: "field (the (sent (buy sample_env ?req))) ''error'' = None"
    by (simp add: sample_buy field_def)
  have ab: "toBaseUnits (amount (query ?req)) = Fin 1000000000000000000
            \<and> ToNumber (Str ''500000000000000000'') = Fin 500000000000000000
            \<and> (1000000000000000000 :: rat) \<noteq> 0 \<and> (500000000000000000 :: rat) \<noteq> 0"
    by (simp add: sample_simps toBaseUnits_one sample_expectedOut)
  note t = C5_buy_price_inverted [where E = sample_env and r = ?rb
             and swaps = "[Str ''pool'']" and expectedOut = "Str ''500000000000000000''"]
  note u = t [where req = ?req, unfolded Let_def]
  note v = t [where req = ?rej, unfolded Let_def]
  note w = t [where req = ?rej', unfolded Let_def]
  note u1 = u [THEN conjunct1, rule_format, OF m1]
  note u2 = u [THEN conjunct2, THEN conjunct1, rule_format, OF h1]
  note u3 = u [THEN conjunct2, THEN conjunct2, THEN conjunct1, rule_format, OF m2]
  note u4 = u [THEN conjunct2, THEN conjunct2, THEN conjunct2, rule_format, OF h3]
  note v2 = v [THEN conjunct2, THEN conjunct1, rule_format, OF h1]
  note w4 = w [THEN conjunct2, THEN conjunct2, THEN conjunct2, rule_format, OF h3]
  have c1: "buy_price (sample_env\<lparr>toSignificant := \<lambda>p n. ''95''\<rparr>) ?req = buy_price sample_env ?req
            \<and> buy (sample_env\<lparr>toSignificant := \<lambda>p n. ''95''\<rparr>) ?req = buy sample_env ?req"
    by (rule u2 [THEN conjunct2, THEN conjunct2, THEN conjunct2, THEN conjunct2, THEN conjunct1,
                 rule_format, OF f])
  have c2: "sent (buy sample_env ?rej) =
              Some \<lparr>status = 200,
                    json = [(''error'', JVal (Str swapMoreThanMaxPriceError)),
                            (''message'',
                               JVal (Str (''Swap price '' @ toSignificant sample_env (invert (midPrice ?rb)) 8
                                          @ '' exceeds maxPrice ''
                                          @ ToString (optional_number (maxPrice (body ?rej))))))]\<rparr>"
    by (rule v2 [THEN conjunct2, THEN conjunct2, THEN conjunct2, THEN conjunct2, THEN conjunct2,
                 rule_format, OF k, THEN conjunct2, THEN conjunct2, rule_format, OF n1])
  have c3: "sent (balancer_trade sample_env ?rej') = None"
    by (rule w4 [THEN conjunct2, THEN conjunct1, rule_format, OF k',
                 THEN conjunct2, THEN conjunct2, rule_format, OF n2])
  have c4: "num_div (toBaseUnits (amount (query ?req))) (ToNumber (Str ''500000000000000000''))
              = fl (inverse (500000000000000000 / 1000000000000000000))"
    by (rule u4 [THEN conjunct2, THEN conjunct2, rule_format, OF ab])
  have two: "fl (inverse (500000000000000000 / 1000000000000000000)) = Fin 2"
    by (simp add: fl_simps)
  have g2: "is_route_query (FetchRoute (Str ''TOKEN_B'') (Str ''TOKEN_A''))"
    by simp
  have g3: "fetch_route sample_env (Str ''TOKEN_B'') (Str ''TOKEN_A'') = Inr (Some ?rb)"
    by (simp add: sample_simps sample_fetch_route_def)
  have g4: "invert \<lparr>baseCurrency = Str ''TOKEN_B'', quoteCurrency = Str ''TOKEN_A'',
                     numerator = 1, denominator = 95\<rparr>
            = \<lparr>baseCurrency = Str ''TOKEN_A'', quoteCurrency = Str ''TOKEN_B'',
               numerator = 95, denominator = 1\<rparr>"
    by (simp add: invert_def)
  have g5: "toSignificant sample_env
              (invert \<lparr>baseCurrency = Str ''TOKEN_B'', quoteCurrency = Str ''TOKEN_A'',
                       numerator = 1, denominator = 95\<rparr>) 8 = ''95''"
    using p by simp
  have g6: "map_option (\<lambda>x. (field x ''price'', field x ''expectedIn''))
              (sent (buy_price sample_env ?req))
            = Some (Some (JVal (Str ''95'')), Some (JVal (Num (Fin 95))))"
    by (simp add: sample_buy_quote field_def)
  have g10: "executed (buy sample_env ?req)"
    by (simp add: sample_buy executed_def)
  have g11: "map_option (\<lambda>x. (field x ''error'', field x ''price'', field x ''expectedIn''))
               (sent (buy sample_env ?req))
             = Some (None, Some (JVal (Str ''95'')), Some (JVal (Num (Fin 95))))"
    by (simp add: sample_buy field_def)
  have b50: "optional_number (maxPrice (body ?rej)) = Num (Fin 50)"
    by (simp add: sample_simps optional_number_def parse_defs fl_simps)
  have s50: "ToString (Num (Fin 50)) = ''50''"
    by (simp add: tostring_defs fl_simps)
  have g13: "sent (buy sample_env ?rej) =
               Some \<lparr>status = 200,
                     json = [(''error'', JVal (Str ''Swap price exceeds maxPrice'')),
                             (''message'', JVal (Str ''Swap price 95 exceeds maxPrice 50''))]\<rparr>"
    unfolding c2 p b50 s50 swapMoreThanMaxPriceError_def by simp
  have g15: "is_route_query (GetSwaps (Str ''0xdai'') (Str ''0xweth'') (Fin 1000000000000000000))"
    by simp
  have g16: "getSwaps sample_env (Str ''0xdai'') (Str ''0xweth'') (Fin 1000000000000000000)
             = Inr ([Str ''pool''], Str ''500000000000000000'')"
    by (simp add: sample_simps)
  have g17: "map_option (\<lambda>x. field x ''price'') (sent (balancer_price sample_env ?req))
             = Some (Some (JVal (Num (Fin 2))))"
    using sample_balancer_quote by (simp add: balancer_router_def field_def)
  have g19: "executed (balancer_trade sample_env ?req)"
    by (simp add: sample_balancer_trade executed_def)
  have g20: "map_option (\<lambda>x. field x ''price'') (sent (balancer_trade sample_env ?req))
             = Some (Some (JVal (Num (Fin 2))))"
    by (simp add: sample_balancer_trade field_def)
  have g23: "toBaseUnits (Str ''1'') = Fin 1000000000000000000"
    by (rule toBaseUnits_one)
  have g24: "ToNumber (Str ''500000000000000000'') = Fin 500000000000000000"
    using sample_expectedOut by simp
  have g25: "num_div (Fin 1000000000000000000) (Fin 500000000000000000)
             = fl (inverse (500000000000000000 / 1000000000000000000))"
    using c4 unfolding g24 by (simp only: sample_simps toBaseUnits_one)
  show ?thesis
    by (intro conjI m1 g2 g3 g4 g5 g6 c1 [THEN conjunct1] c1 [THEN conjunct2] k g10 g11
          n1 g13 m2 g15 g16 g17 k' g19 g20 n2 c3 g23 g24 g25 two)
qed

subsection \<open>C2: the amount in base units\<close>









text \<open>From \<open>10^21\<close> on, the product is printed in exponent notation, of which
  \<open>parseInt\<close> reads the digits before the point: an amount of 1000 becomes one base
  unit.\<close>

lemma toBaseUnits_1000: "toBaseUnits (Str ''1000'') = Fin 1"
proof -
  have 1: "ToNumber (Str ''1000'') = Fin 1000"
    by (simp add: parse_defs fl_simps)
  have 2: "fl 1000000000000000000000 = Fin 1000000000000000000000"
    by (rule fl_exact [where m = "5 ^ 21" and e = 21]) simp_all
  have 3: "pos_to_string 1000000000000000000000 = ''1e+21''"
    by (simp add: tostring_defs 2)
  have 4: "parseInt_str ''1e+21'' = Fin 1"
    by (simp add: parse_defs fl_simps)
  show ?thesis
    using 1 by (simp add: toBaseUnits_def denomMultiplier_def parseInt_def 2 3 4)
qed




end
